theory Spec2Isabelle
  imports Main
begin

section \<open>GangaSNOplus RATProd: application, splitter and runtime handlers\<close>

text \<open>
  A shallow embedding of \<^verbatim>\<open>python/GangaSNOplus/Lib/RATProd.py\<close>: the application
  \<^verbatim>\<open>RATProd\<close> with its \<^verbatim>\<open>configure\<close> method, the splitter \<^verbatim>\<open>RATSplitter.split\<close> and the
  three runtime handlers \<^verbatim>\<open>RTHandler\<close>, \<^verbatim>\<open>WGRTHandler\<close> and \<^verbatim>\<open>LCGRTHandler\<close>.
  Python strings are \<^typ>\<open>string\<close>, every \<^verbatim>\<open>raise\<close> is an \<open>Inl\<close> result, and the objects the
  methods mutate (the job, its sandboxes, the file system) are passed in and returned.
\<close>

subsection \<open>Python values and errors\<close>

text \<open>
  \<^verbatim>\<open>raise Exception\<close> is the failure the module raises itself; the other errors are the
  interpreter's or the host's: an index out of range, a key that a configuration object
  does not hold, a file that cannot be opened, no login name.
\<close>

datatype error = Exception | IndexError | KeyError | IOError | OSError

text \<open>A value that is \<^verbatim>\<open>None\<close> or a \<^verbatim>\<open>str\<close> (schema type list \<^verbatim>\<open>['str', 'type(None)']\<close>).\<close>

datatype pyval = PyNone | PyStr string

text \<open>
  A field of schema type list \<^verbatim>\<open>['list', 'str']\<close>: a single string or a list of strings
  (\<^verbatim>\<open>inputFiles\<close>, \<^verbatim>\<open>outputFiles\<close>).
\<close>

datatype files = FStr string | FList "string list"

text \<open>
  The field \<^verbatim>\<open>environment\<close>, of type list \<^verbatim>\<open>['list', 'str', 'type(None)']\<close>.
\<close>

datatype env = EnvNone | EnvFile string | EnvList "string list"

text \<open>Sequencing of fallible steps: the first \<^verbatim>\<open>raise\<close> ends the computation.\<close>

definition bind_err :: "error + 'a \<Rightarrow> ('a \<Rightarrow> error + 'b) \<Rightarrow> error + 'b" where
  "bind_err m f = (case m of Inl e \<Rightarrow> Inl e | Inr x \<Rightarrow> f x)"

text \<open>
  \<^verbatim>\<open>xs[i]\<close>: a negative index counts from the end, an index out of range raises
  \<^verbatim>\<open>IndexError\<close>.
\<close>

definition py_getitem :: "'a list \<Rightarrow> int \<Rightarrow> error + 'a" where
  "py_getitem xs i =
     (let n = int (length xs); k = (if i < 0 then i + n else i)
      in if k < 0 \<or> n \<le> k then Inl IndexError else Inr (xs ! nat k))"

text \<open>\<^verbatim>\<open>'%s' % v\<close> for a value that is \<^verbatim>\<open>None\<close> or a string.\<close>

fun fmt_s :: "pyval \<Rightarrow> string" where
  "fmt_s PyNone = ''None''"
| "fmt_s (PyStr s) = s"

text \<open>Truth of a value in a condition: \<^verbatim>\<open>None\<close> and the empty string are false.\<close>

fun truthy :: "pyval \<Rightarrow> bool" where
  "truthy PyNone = False"
| "truthy (PyStr s) = (s \<noteq> [])"

text \<open>
  \<^verbatim>\<open>s.split(c)\<close> for a separator of one character: the pieces between the separators,
  never an empty list.
\<close>

fun py_split :: "char \<Rightarrow> string \<Rightarrow> string list" where
  "py_split c [] = [[]]"
| "py_split c (x # xs) =
     (let r = py_split c xs in if x = c then [] # r else (x # hd r) # tl r)"

text \<open>
  Iterating over a \<^verbatim>\<open>['list', 'str']\<close> field: the elements of a list, the characters of a
  string (each a string of length one).
\<close>

fun py_iter :: "files \<Rightarrow> string list" where
  "py_iter (FList xs) = xs"
| "py_iter (FStr s) = map (\<lambda>c. [c]) s"

subsection \<open>The application, the job and the host's objects\<close>

text \<open>The schema of \<^verbatim>\<open>RATProd\<close>, field by field.\<close>

record RATProd =
  environment :: env
  discardOutput :: bool
  inputDir :: string
  inputFiles :: files
  outputLog :: string
  outputDir :: string
  outputFiles :: files
  prodScript :: string
  rat_db_name :: pyval
  rat_db_pswd :: pyval
  rat_db_protocol :: pyval
  rat_db_url :: pyval
  rat_db_user :: pyval
  ratDirectory :: string
  ratMacro :: string
  ratVersion :: string
  useDB :: bool

text \<open>
  An entry of a sandbox: a \<^verbatim>\<open>File(name)\<close> object or a plain path string (the handlers
  append both).
\<close>

datatype sandbox_item = FileObj string | PathStr string

text \<open>
  The part of the backend object the handlers touch: \<^verbatim>\<open>backend.voproxy\<close> (WestGrid) and
  \<^verbatim>\<open>backend.requirements.software\<close> (LCG).
\<close>

record backend =
  voproxy :: "string option"
  requirements_software :: string

text \<open>
  The job an application hangs in (\<^verbatim>\<open>app._getParent()\<close>, \<^verbatim>\<open>app.getJobObject()\<close>): the
  application itself, the two sandboxes and the backend.
\<close>

record job =
  application :: RATProd
  inputsandbox :: "sandbox_item list"
  outputsandbox :: "string list"
  backend :: backend

text \<open>
  A configuration object of the host framework, read as \<^verbatim>\<open>c[key]\<close>. The objects are not
  part of the module: they are parameters here, a key they do not hold raises.
\<close>

type_synonym options = "string \<rightharpoonup> pyval"

definition get_option :: "options \<Rightarrow> string \<Rightarrow> error + pyval" where
  "get_option c k = (case c k of None \<Rightarrow> Inl KeyError | Some v \<Rightarrow> Inr v)"

subsection \<open>RATSplitter.split\<close>

text \<open>
  The schema of \<^verbatim>\<open>RATSplitter\<close>: four sequences. The fields carry the prefix \<open>spl_\<close>,
  the names without it being the application's.
\<close>

record RATSplitter =
  spl_outputFiles :: "files list"
  spl_inputFiles :: "files list"
  spl_prodScript :: "string list"
  spl_ratMacro :: "string list"

text \<open>
  The body of the loop for index \<open>i\<close>. \<^verbatim>\<open>createSubjob\<close> is the host's
  (\<^verbatim>\<open>ISplitter.createSubjob\<close>) and a parameter here: any function from the job to its copy.
\<close>

definition split_body ::
  "(job \<Rightarrow> job) \<Rightarrow> RATSplitter \<Rightarrow> job \<Rightarrow> bool \<Rightarrow> bool \<Rightarrow> nat \<Rightarrow> nat \<Rightarrow> error + job" where
  "split_body createSubjob self jb fin fout nMacro i =
     (let j = createSubjob jb in
      bind_err (if fout
                then bind_err (py_getitem (spl_outputFiles self) (int i))
                       (\<lambda>v. Inr (j\<lparr>application := (application j)\<lparr>outputFiles := v\<rparr>\<rparr>))
                else Inr j)
        (\<lambda>j. bind_err (if fin
                then bind_err (py_getitem (spl_inputFiles self) (int i))
                       (\<lambda>v. Inr (j\<lparr>application := (application j)\<lparr>inputFiles := v\<rparr>\<rparr>))
                else Inr j)
          (\<lambda>j. if nMacro \<noteq> 0
               then bind_err (py_getitem (spl_ratMacro self) (int i))
                      (\<lambda>v. Inr (j\<lparr>application := (application j)\<lparr>ratMacro := v\<rparr>\<rparr>))
               else bind_err (py_getitem (spl_prodScript self) (int i))
                      (\<lambda>v. Inr (j\<lparr>application := (application j)\<lparr>prodScript := v\<rparr>\<rparr>)))))"

text \<open>\<^verbatim>\<open>for i in range(nFiles)\<close>, appending to \<^verbatim>\<open>subjobs\<close>.\<close>

fun split_loop ::
  "(job \<Rightarrow> job) \<Rightarrow> RATSplitter \<Rightarrow> job \<Rightarrow> bool \<Rightarrow> bool \<Rightarrow> nat \<Rightarrow> nat list \<Rightarrow> job list
     \<Rightarrow> error + job list" where
  "split_loop createSubjob self jb fin fout nMacro [] subjobs = Inr subjobs"
| "split_loop createSubjob self jb fin fout nMacro (i # rest) subjobs =
     bind_err (split_body createSubjob self jb fin fout nMacro i)
       (\<lambda>j. split_loop createSubjob self jb fin fout nMacro rest (subjobs @ [j]))"

definition split :: "(job \<Rightarrow> job) \<Rightarrow> RATSplitter \<Rightarrow> job \<Rightarrow> error + job list" where
  "split createSubjob self jb =
     (let fin = (length (spl_inputFiles self) \<noteq> 0);
          nFiles = (if length (spl_inputFiles self) = 0 then 0 else length (spl_inputFiles self));
          fout = (length (spl_outputFiles self) \<noteq> 0);
          nFiles = (if length (spl_outputFiles self) = 0 then nFiles
                    else length (spl_outputFiles self));
          nScript = length (spl_prodScript self);
          nMacro = length (spl_ratMacro self)
      in if nScript \<noteq> 0 \<and> nMacro \<noteq> 0 then Inl Exception
         else if nScript = 0 \<and> nMacro = 0 then Inl Exception
         else if fin = False \<and> fout = False then Inl Exception
         else if fin = True \<and> fout = True
                 \<and> length (spl_inputFiles self) \<noteq> length (spl_outputFiles self)
           then Inl Exception
         else if nScript \<noteq> 0 \<and> nScript \<noteq> nFiles then Inl Exception
         else if nMacro \<noteq> 0 \<and> nMacro \<noteq> nFiles then Inl Exception
         else split_loop createSubjob self jb fin fout nMacro [0..<nFiles] [])"

text \<open>
  The words of the specification, for comparison with the code: the file count of a
  request, the four validation rules, and the sub-job a valid request yields at index
  \<open>i\<close>.
\<close>

definition fileCount :: "RATSplitter \<Rightarrow> nat" where
  "fileCount self =
     (if spl_inputFiles self \<noteq> [] then length (spl_inputFiles self)
      else length (spl_outputFiles self))"

definition rule_violated :: "RATSplitter \<Rightarrow> bool" where
  "rule_violated self =
     ((spl_prodScript self \<noteq> [] \<and> spl_ratMacro self \<noteq> [])
      \<or> (spl_prodScript self = [] \<and> spl_ratMacro self = [])
      \<or> (spl_inputFiles self = [] \<and> spl_outputFiles self = [])
      \<or> (spl_inputFiles self \<noteq> [] \<and> spl_outputFiles self \<noteq> []
           \<and> length (spl_inputFiles self) \<noteq> length (spl_outputFiles self))
      \<or> (spl_prodScript self \<noteq> [] \<and> length (spl_prodScript self) \<noteq> fileCount self)
      \<or> (spl_ratMacro self \<noteq> [] \<and> length (spl_ratMacro self) \<noteq> fileCount self))"

definition slice_subjob :: "(job \<Rightarrow> job) \<Rightarrow> RATSplitter \<Rightarrow> job \<Rightarrow> nat \<Rightarrow> job" where
  "slice_subjob createSubjob self jb i =
     (let j = createSubjob jb; a = application j
      in j\<lparr>application := a
           \<lparr>outputFiles := (if spl_outputFiles self \<noteq> [] then spl_outputFiles self ! i
                            else outputFiles a),
            inputFiles := (if spl_inputFiles self \<noteq> [] then spl_inputFiles self ! i
                           else inputFiles a),
            ratMacro := (if spl_ratMacro self \<noteq> [] then spl_ratMacro self ! i else ratMacro a),
            prodScript := (if spl_ratMacro self \<noteq> [] then prodScript a
                           else spl_prodScript self ! i)\<rparr>\<rparr>)"

subsection \<open>RATProd.configure\<close>

text \<open>
  \<^verbatim>\<open>configure\<close> reads the module's configuration object \<^verbatim>\<open>config\<close> (a parameter, see
  \<open>get_option\<close>) and mutates the application and the sandboxes of its job. The result
  pairs what the call returns (\<^verbatim>\<open>(None, None)\<close>, here \<open>()\<close>) or raises with the job
  as the call leaves it.
\<close>

definition configure :: "options \<Rightarrow> job \<Rightarrow> (error + unit) \<times> job" where
  "configure config jb =
     (let self = application jb in
      if prodScript self = [] \<and> ratMacro self = [] then (Inl Exception, jb)
      else if prodScript self \<noteq> [] \<and> ratMacro self \<noteq> [] then (Inl Exception, jb)
      else
        case (if useDB self
              then bind_err (get_option config ''rat_db_pswd'')
                     (\<lambda>pswd. if \<not> truthy pswd then Inl Exception else Inr ())
              else Inr ()) of
          Inl e \<Rightarrow> (Inl e, jb)
        | Inr _ \<Rightarrow>
            (let jb = (if ratMacro self \<noteq> []
                       then jb\<lparr>inputsandbox := inputsandbox jb @ [FileObj (ratMacro self)],
                               outputsandbox := outputsandbox jb @ [''rat.log'']\<rparr>
                       else jb\<lparr>inputsandbox := inputsandbox jb @ [FileObj (prodScript self)]\<rparr>);
                 jb = jb\<lparr>outputsandbox := outputsandbox jb @ [''return_card.js'']\<rparr>;
                 jb = (case inputFiles (application jb) of
                         FStr s \<Rightarrow> jb\<lparr>application := (application jb)\<lparr>inputFiles := FList [s]\<rparr>\<rparr>
                       | FList xs \<Rightarrow> jb);
                 jb = (case outputFiles (application jb) of
                         FStr s \<Rightarrow> jb\<lparr>application := (application jb)\<lparr>outputFiles := FList [s]\<rparr>\<rparr>
                       | FList xs \<Rightarrow> jb)
             in (Inr (), jb)))"

text \<open>\<^verbatim>\<open>type(x) is list\<close>, for the claim that \<^verbatim>\<open>configure\<close> leaves lists.\<close>

fun is_list :: "files \<Rightarrow> bool" where
  "is_list (FList xs) = True"
| "is_list (FStr s) = False"

subsection \<open>The pieces the three handlers share\<close>

text \<open>
  The three \<^verbatim>\<open>prepare\<close> methods repeat the same statements for the name of the file to
  run, for the two serialized lists and for the argument string; each repeated block is
  one definition here.
\<close>

text \<open>\<^verbatim>\<open>decimated = p.split('/')\<close>, then \<^verbatim>\<open>decimated[len(decimated)-1]\<close>.\<close>

definition last_component :: "string \<Rightarrow> error + string" where
  "last_component p =
     (let decimated = py_split CHR ''/'' p
      in py_getitem decimated (int (length decimated) - 1))"

text \<open>
  The pair \<^verbatim>\<open>(macroFile, prodFile)\<close>: both start as \<^verbatim>\<open>None\<close>, one of them is set.
\<close>

definition run_file :: "RATProd \<Rightarrow> error + (pyval \<times> pyval)" where
  "run_file app =
     (if ratMacro app \<noteq> []
      then bind_err (last_component (ratMacro app)) (\<lambda>macroFile. Inr (PyStr macroFile, PyNone))
      else bind_err (last_component (prodScript app)) (\<lambda>prodFile. Inr (PyNone, PyStr prodFile)))"

text \<open>
  \<^verbatim>\<open>foutList\<close> and \<^verbatim>\<open>finList\<close>: start from \<^verbatim>\<open>'['\<close>, add \<^verbatim>\<open>'%s,' % var\<close> for every element,
  and, if anything was added (\<^verbatim>\<open>len(foutList) != 1\<close>), replace the last character by
  \<^verbatim>\<open>']'\<close>.
\<close>

definition serialize_files :: "files \<Rightarrow> string" where
  "serialize_files fs =
     (let l = foldl (\<lambda>acc var. acc @ var @ '','') ''['' (py_iter fs)
      in if length l \<noteq> 1 then butlast l @ '']'' else l)"

text \<open>
  The argument string from \<^verbatim>\<open>-v\<close> to the run file, appended to what \<open>args\<close> holds
  already (the empty string, or the grid flag).
\<close>

definition front_string_args ::
  "RATProd \<Rightarrow> string \<Rightarrow> string \<Rightarrow> string \<Rightarrow> pyval \<times> pyval \<Rightarrow> string \<Rightarrow> string" where
  "front_string_args app swDir foutList finList mp args =
     (let args = args @ ''-v '' @ ratVersion app @ '' '';
          args = args @ ''-s '' @ swDir @ '' '';
          args = args @ ''-d '' @ outputDir app @ '' '';
          args = args @ ''-o '' @ foutList @ '' '';
          args = args @ ''-x '' @ inputDir app @ '' '';
          args = args @ ''-i '' @ finList @ '' ''
      in if ratMacro app \<noteq> [] then args @ ''-m '' @ fmt_s (fst mp) @ '' ''
         else args @ ''-k -m '' @ fmt_s (snd mp) @ '' '')"

text \<open>
  The database part and \<^verbatim>\<open>--nostore\<close> of the argument string. \<^verbatim>\<open>app.config\<close> is the
  host's object, a parameter here.
\<close>

definition back_string_args :: "options \<Rightarrow> RATProd \<Rightarrow> string \<Rightarrow> error + string" where
  "back_string_args app_config app args =
     bind_err
       (if useDB app
        then bind_err (get_option app_config ''rat_db_user'') (\<lambda>u.
             bind_err (get_option app_config ''rat_db_pswd'') (\<lambda>p.
             bind_err (get_option app_config ''rat_db_name'') (\<lambda>n.
             bind_err (get_option app_config ''rat_db_protocol'') (\<lambda>pr.
             bind_err (get_option app_config ''rat_db_url'') (\<lambda>url.
               Inr (args @ ''--dbuser '' @ fmt_s u @ '' ''
                         @ ''--dbpassword '' @ fmt_s p @ '' ''
                         @ ''--dbname '' @ fmt_s n @ '' ''
                         @ ''--dbprotocol '' @ fmt_s pr @ '' ''
                         @ ''--dburl '' @ fmt_s url @ '' ''))))))
        else Inr args)
       (\<lambda>args. Inr (if discardOutput app then args @ ''--nostore '' else args))"

text \<open>The argument list of the branch without an environment (\<^verbatim>\<open>args = []\<close>, then \<^verbatim>\<open>+=\<close>).\<close>

definition list_args ::
  "options \<Rightarrow> RATProd \<Rightarrow> string \<Rightarrow> string \<Rightarrow> string \<Rightarrow> pyval \<times> pyval \<Rightarrow> error + pyval list" where
  "list_args app_config app swDir foutList finList mp =
     (let args = [];
          args = args @ [PyStr ''-v'', PyStr (ratVersion app)];
          args = args @ [PyStr ''-s'', PyStr swDir];
          args = args @ [PyStr ''-d'', PyStr (outputDir app)];
          args = args @ [PyStr ''-o'', PyStr foutList];
          args = args @ [PyStr ''-x'', PyStr (inputDir app)];
          args = args @ [PyStr ''-i'', PyStr finList];
          args = (if ratMacro app \<noteq> [] then args @ [PyStr ''-m'', fst mp]
                  else args @ [PyStr ''-k'', PyStr ''-m'', snd mp])
      in bind_err
           (if useDB app
            then bind_err (get_option app_config ''rat_db_user'') (\<lambda>u.
                 bind_err (get_option app_config ''rat_db_pswd'') (\<lambda>p.
                 bind_err (get_option app_config ''rat_db_name'') (\<lambda>n.
                 bind_err (get_option app_config ''rat_db_protocol'') (\<lambda>pr.
                 bind_err (get_option app_config ''rat_db_url'') (\<lambda>url.
                   Inr (args @ [PyStr ''--dbuser'', u]
                             @ [PyStr ''--dbpassword'', p]
                             @ [PyStr ''--dbname'', n]
                             @ [PyStr ''--dbprotocol'', pr]
                             @ [PyStr ''--dburl'', url]))))))
            else Inr args)
           (\<lambda>args. Inr (if discardOutput app then args @ [PyStr ''--nostore''] else args)))"

subsection \<open>The host and the operating system, as the handlers see them\<close>

text \<open>
  \<^verbatim>\<open>_app_directory\<close> (the directory of the module) and \<^verbatim>\<open>app.config\<close> come from the host.
\<close>

record host =
  app_directory :: string
  app_config :: options

text \<open>
  What the handlers read and write outside the job: \<^verbatim>\<open>os.getlogin()\<close> (none: the call
  raises), \<^verbatim>\<open>os.environ\<close>, the paths that exist with their contents, and the paths
  \<^verbatim>\<open>file(path, 'w')\<close> can open.
\<close>

record os_state =
  login :: "string option"
  environ :: "string \<rightharpoonup> string"
  file_contents :: "string \<rightharpoonup> string"
  can_write :: "string \<Rightarrow> bool"

text \<open>\<^verbatim>\<open>os.path.exists(p)\<close>.\<close>

definition path_exists :: "os_state \<Rightarrow> string \<Rightarrow> bool" where
  "path_exists os p = (file_contents os p \<noteq> None)"

text \<open>\<^verbatim>\<open>os.path.basename(p)\<close>: what follows the last \<^verbatim>\<open>'/'\<close>.\<close>

definition basename :: "string \<Rightarrow> string" where
  "basename p = rev (takeWhile (\<lambda>c. c \<noteq> CHR ''/'') (rev p))"

text \<open>The job configuration a handler returns.\<close>

datatype config_class = StandardJobConfig | LCGJobConfig

record jobconfig =
  config_class :: config_class
  exe :: sandbox_item
  inputbox :: "sandbox_item list"
  outputbox :: "string list"
  cfg_args :: "pyval list"

text \<open>
  The result of a \<^verbatim>\<open>prepare\<close>: the configuration or the error, with the job and the
  operating system as the call leaves them.
\<close>

type_synonym prepared = "(error + jobconfig) \<times> job \<times> os_state"

subsection \<open>RTHandler.prepare (local and batch backends)\<close>

text \<open>
  The end of the branch with an environment, shared by its two cases: the argument
  string, the wrapper's arguments with the launcher kind \<^verbatim>\<open>misc\<close>, the runner added to
  the input sandbox.
\<close>

definition wrapped_misc ::
  "host \<Rightarrow> os_state \<Rightarrow> job \<Rightarrow> RATProd \<Rightarrow> string \<Rightarrow> string \<Rightarrow> string \<Rightarrow> pyval \<times> pyval \<Rightarrow> string
     \<Rightarrow> prepared" where
  "wrapped_misc h os jb app swDir foutList finList mp envFile =
     (case back_string_args (app_config h) app
             (front_string_args app swDir foutList finList mp []) of
        Inl e \<Rightarrow> (Inl e, jb, os)
      | Inr args \<Rightarrow>
          (let wrapperArgs = [PyStr ''-s'', PyStr ''ratProdRunner.py'', PyStr ''-l'',
                              PyStr ''misc'', PyStr ''-f'', PyStr envFile, PyStr ''-a'',
                              PyStr args];
               jb = jb\<lparr>inputsandbox :=
                        inputsandbox jb @ [PathStr (app_directory h @ ''/ratProdRunner.py'')]\<rparr>
           in (Inr \<lparr>config_class = StandardJobConfig,
                    exe = FileObj (app_directory h @ ''/sillyPythonWrapper.py''),
                    inputbox = inputsandbox jb, outputbox = outputsandbox jb,
                    cfg_args = wrapperArgs\<rparr>, jb, os)))"

definition RTHandler_prepare :: "host \<Rightarrow> os_state \<Rightarrow> job \<Rightarrow> prepared" where
  "RTHandler_prepare h os jb =
     (let app = application jb in
      if ratDirectory app = [] then (Inl Exception, jb, os)
      else
        let swDir = ratDirectory app in
        case run_file app of
          Inl e \<Rightarrow> (Inl e, jb, os)
        | Inr mp \<Rightarrow>
            (let foutList = serialize_files (outputFiles app);
                 finList = serialize_files (inputFiles app)
             in case environment app of
                  EnvNone \<Rightarrow>
                    (case list_args (app_config h) app swDir foutList finList mp of
                       Inl e \<Rightarrow> (Inl e, jb, os)
                     | Inr args \<Rightarrow>
                         (Inr \<lparr>config_class = StandardJobConfig,
                               exe = FileObj (app_directory h @ ''/ratProdRunner.py''),
                               inputbox = inputsandbox jb, outputbox = outputsandbox jb,
                               cfg_args = args\<rparr>, jb, os))
                | EnvList lines \<Rightarrow>
                    (case login os of
                       None \<Rightarrow> (Inl OSError, jb, os)
                     | Some user \<Rightarrow>
                         (let tempname = ''tempRATProdEnv_'' @ user;
                              path = ''/tmp/'' @ tempname
                          in if \<not> can_write os path then (Inl IOError, jb, os)
                             else
                               let os = os\<lparr>file_contents := (file_contents os)
                                          (path \<mapsto> concat (map (\<lambda>line. line @ '' '' @ [CHR 0x0A]) lines))\<rparr>;
                                   jb = jb\<lparr>inputsandbox := inputsandbox jb @ [PathStr path]\<rparr>
                               in wrapped_misc h os jb app swDir foutList finList mp tempname))
                | EnvFile p \<Rightarrow>
                    (let jb = jb\<lparr>inputsandbox := inputsandbox jb @ [PathStr p]\<rparr>
                     in wrapped_misc h os jb app swDir foutList finList mp (basename p))))"

subsection \<open>WGRTHandler.prepare (WestGrid)\<close>

definition WGRTHandler_prepare :: "host \<Rightarrow> os_state \<Rightarrow> job \<Rightarrow> prepared" where
  "WGRTHandler_prepare h os jb =
     (let app = application jb in
      if ratDirectory app = [] then (Inl Exception, jb, os)
      else
        let swDir = ratDirectory app in
        case (case voproxy (backend jb) of
                None \<Rightarrow> (case environ os ''X509_USER_PROXY'' of
                            None \<Rightarrow> Inl Exception
                          | Some v \<Rightarrow> Inr v)
              | Some v \<Rightarrow> Inr v) of
          Inl e \<Rightarrow> (Inl e, jb, os)
        | Inr voproxy' \<Rightarrow>
            if \<not> path_exists os voproxy' then (Inl Exception, jb, os)
            else
              case run_file app of
                Inl e \<Rightarrow> (Inl e, jb, os)
              | Inr mp \<Rightarrow>
                  (let foutList = serialize_files (outputFiles app);
                       finList = serialize_files (inputFiles app);
                       args = [];
                       args = args @ ''-g srm '';
                       args = front_string_args app swDir foutList finList mp args;
                       args = args @ ''--voproxy '' @ voproxy' @ '' ''
                   in case back_string_args (app_config h) app args of
                        Inl e \<Rightarrow> (Inl e, jb, os)
                      | Inr args \<Rightarrow>
                          (let wrapperArgs = [PyStr ''-s'', PyStr ''ratProdRunner.py'',
                                              PyStr ''-l'', PyStr ''wg'', PyStr ''-a'',
                                              PyStr args];
                               jb = jb\<lparr>inputsandbox := inputsandbox jb
                                        @ [PathStr (app_directory h @ ''/ratProdRunner.py'')]\<rparr>
                           in (Inr \<lparr>config_class = StandardJobConfig,
                                    exe = FileObj (app_directory h @ ''/sillyPythonWrapper.py''),
                                    inputbox = inputsandbox jb, outputbox = outputsandbox jb,
                                    cfg_args = wrapperArgs\<rparr>, jb, os))))"

subsection \<open>LCGRTHandler.prepare (LCG)\<close>

definition LCGRTHandler_prepare :: "host \<Rightarrow> os_state \<Rightarrow> job \<Rightarrow> prepared" where
  "LCGRTHandler_prepare h os jb =
     (let app = application jb;
          jb = jb\<lparr>backend := (backend jb)
                  \<lparr>requirements_software := ''VO-snoplus.snolab.ca-rat-'' @ ratVersion app\<rparr>\<rparr>;
          swDir = (if ratDirectory app = [] then ''$VO_SNOPLUS_SNOLAB_CA_SW_DIR/snoing-install''
                   else ratDirectory app)
      in case run_file app of
           Inl e \<Rightarrow> (Inl e, jb, os)
         | Inr mp \<Rightarrow>
             (let foutList = serialize_files (outputFiles app);
                  finList = serialize_files (inputFiles app);
                  args = [];
                  args = args @ ''-g lcg '';
                  args = front_string_args app swDir foutList finList mp args
              in case back_string_args (app_config h) app args of
                   Inl e \<Rightarrow> (Inl e, jb, os)
                 | Inr args \<Rightarrow>
                     (let wrapperArgs = [PyStr ''-s'', PyStr ''ratProdRunner.py'',
                                         PyStr ''-l'', PyStr ''lcg'', PyStr ''-a'',
                                         PyStr ([CHR 0x22] @ args @ [CHR 0x22])];
                          jb = jb\<lparr>inputsandbox := inputsandbox jb
                                   @ [PathStr (app_directory h @ ''/ratProdRunner.py'')]\<rparr>
                      in (Inr \<lparr>config_class = LCGJobConfig,
                               exe = FileObj (app_directory h @ ''/sillyPythonWrapper.py''),
                               inputbox = inputsandbox jb, outputbox = outputsandbox jb,
                               cfg_args = wrapperArgs\<rparr>, jb, os))))"

subsection \<open>The specification's renderings and example inputs\<close>

text \<open>
  The bracketed list of the specification: the elements joined by commas, no comma after
  the last one.
\<close>

fun comma_join :: "string list \<Rightarrow> string" where
  "comma_join [] = []"
| "comma_join [a] = a"
| "comma_join (a # b # r) = a @ '','' @ comma_join (b # r)"

text \<open>
  Concrete inputs for the closed theorems: an application in macro mode that discards its
  output, its job, the request of the specification's example (two files, two scripts)
  and the same request with macros added.
\<close>

definition example_app :: RATProd where
  "example_app =
     \<lparr>environment = EnvNone, discardOutput = True, inputDir = ''in'', inputFiles = FList [],
      outputLog = ''rat_output.log'', outputDir = ''out'', outputFiles = FList [],
      prodScript = [], rat_db_name = PyNone, rat_db_pswd = PyNone, rat_db_protocol = PyNone,
      rat_db_url = PyNone, rat_db_user = PyNone, ratDirectory = ''/sw'',
      ratMacro = ''macros/run.mac'', ratVersion = ''5'', useDB = False\<rparr>"

definition example_job :: job where
  "example_job =
     \<lparr>application = example_app, inputsandbox = [], outputsandbox = [],
      backend = \<lparr>voproxy = None, requirements_software = []\<rparr>\<rparr>"

definition example_request :: RATSplitter where
  "example_request =
     \<lparr>spl_outputFiles = [FStr ''o1.root'', FStr ''o2.root''],
      spl_inputFiles = [FStr ''f1.root'', FStr ''f2.root''],
      spl_prodScript = [''s1.mac'', ''s2.mac''], spl_ratMacro = []\<rparr>"

definition both_request :: RATSplitter where
  "both_request = example_request\<lparr>spl_ratMacro := [''m1.mac'', ''m2.mac'']\<rparr>"

text \<open>
  The five database entries of a configuration object, for the statements about the
  database arguments: present with the values \<open>u\<close>, \<open>p\<close>, \<open>n\<close>, \<open>pr\<close>, \<open>url\<close>, each of which
  may be \<^verbatim>\<open>None\<close> or empty.
\<close>

definition holds_db :: "options \<Rightarrow> pyval \<Rightarrow> pyval \<Rightarrow> pyval \<Rightarrow> pyval \<Rightarrow> pyval \<Rightarrow> bool" where
  "holds_db c u p n pr url =
     (c ''rat_db_user'' = Some u \<and> c ''rat_db_pswd'' = Some p \<and> c ''rat_db_name'' = Some n
      \<and> c ''rat_db_protocol'' = Some pr \<and> c ''rat_db_url'' = Some url)"


text \<open>
  A configuration object whose database entries are mostly unpopulated, a host and an
  operating system for the closed theorems.
\<close>

definition example_options :: options where
  "example_options =
     [''rat_db_user'' \<mapsto> PyNone, ''rat_db_pswd'' \<mapsto> PyStr ''secret'',
      ''rat_db_name'' \<mapsto> PyStr [], ''rat_db_protocol'' \<mapsto> PyNone,
      ''rat_db_url'' \<mapsto> PyNone]"

definition example_host :: host where
  "example_host = \<lparr>app_directory = ''/ganga/Lib'', app_config = example_options\<rparr>"

definition example_os :: os_state where
  "example_os =
     \<lparr>login = Some ''snoprod'', environ = [''X509_USER_PROXY'' \<mapsto> ''/tmp/x509up''],
      file_contents = [''/tmp/x509up'' \<mapsto> ''proxy''], can_write = (\<lambda>p. True)\<rparr>"

text \<open>
  Three more jobs for the closed theorems: one with no software directory, one whose file
  fields are single strings, one that uses the database.
\<close>

definition empty_dir_job :: job where
  "empty_dir_job = example_job\<lparr>application := example_app\<lparr>ratDirectory := []\<rparr>\<rparr>"

definition single_file_job :: job where
  "single_file_job =
     example_job\<lparr>application :=
       example_app\<lparr>inputFiles := FStr ''f1.root'', outputFiles := FStr ''o1.root''\<rparr>\<rparr>"

definition db_job :: job where
  "db_job = example_job\<lparr>application := example_app\<lparr>useDB := True\<rparr>\<rparr>"

text \<open>
  The assembled arguments in closed form, for the statements about the handlers: the
  tokens from \<^verbatim>\<open>-v\<close> to the run file as a list (\<open>front_tokens\<close>) and as text with a blank
  after every token (\<open>front_text\<close>), and the database part with \<^verbatim>\<open>--nostore\<close> as text
  (\<open>back_text\<close>).
\<close>

definition front_tokens :: "RATProd \<Rightarrow> pyval list" where
  "front_tokens app =
     [PyStr ''-v'', PyStr (ratVersion app), PyStr ''-s'', PyStr (ratDirectory app),
      PyStr ''-d'', PyStr (outputDir app),
      PyStr ''-o'', PyStr (serialize_files (outputFiles app)),
      PyStr ''-x'', PyStr (inputDir app),
      PyStr ''-i'', PyStr (serialize_files (inputFiles app))]
     @ (if ratMacro app \<noteq> [] then [PyStr ''-m'', PyStr (basename (ratMacro app))]
        else [PyStr ''-k'', PyStr ''-m'', PyStr (basename (prodScript app))])"

definition front_text :: "RATProd \<Rightarrow> string \<Rightarrow> string" where
  "front_text app swDir =
     ''-v '' @ ratVersion app @ '' '' @ ''-s '' @ swDir @ '' ''
     @ ''-d '' @ outputDir app @ '' '' @ ''-o '' @ serialize_files (outputFiles app) @ '' ''
     @ ''-x '' @ inputDir app @ '' '' @ ''-i '' @ serialize_files (inputFiles app) @ '' ''
     @ (if ratMacro app \<noteq> [] then ''-m '' @ basename (ratMacro app) @ '' ''
        else ''-k -m '' @ basename (prodScript app) @ '' '')"

definition back_text :: "RATProd \<Rightarrow> pyval \<Rightarrow> pyval \<Rightarrow> pyval \<Rightarrow> pyval \<Rightarrow> pyval \<Rightarrow> string" where
  "back_text app u p n pr url =
     (if useDB app
      then ''--dbuser '' @ fmt_s u @ '' '' @ ''--dbpassword '' @ fmt_s p @ '' ''
           @ ''--dbname '' @ fmt_s n @ '' '' @ ''--dbprotocol '' @ fmt_s pr @ '' ''
           @ ''--dburl '' @ fmt_s url @ '' ''
      else [])
     @ (if discardOutput app then ''--nostore '' else [])"

subsection \<open>Properties of the splitter\<close>

lemma py_getitem_in_range: "i < length xs \<Longrightarrow> py_getitem xs (int i) = Inr (xs ! i)"
  by (simp add: py_getitem_def)

lemma split_loop_append:
  assumes "\<forall>i \<in> set is. split_body cs self jb fin fout nM i = Inr (g i)"
  shows "split_loop cs self jb fin fout nM is acc = Inr (acc @ map g is)"
  using assms by (induction "is" arbitrary: acc) (simp_all add: bind_err_def)

lemma split_loop_fails:
  "split_loop cs self jb fin fout nM is acc = Inl e \<Longrightarrow>
     \<exists>i \<in> set is. split_body cs self jb fin fout nM i = Inl e"
  by (induction "is" arbitrary: acc) (auto simp: bind_err_def split: sum.splits)

lemma split_body_slice:
  assumes "i < n"
    and "fout \<Longrightarrow> length (spl_outputFiles self) = n"
    and "fin \<Longrightarrow> length (spl_inputFiles self) = n"
    and "fout = (spl_outputFiles self \<noteq> [])"
    and "fin = (spl_inputFiles self \<noteq> [])"
    and "nM = length (spl_ratMacro self)"
    and "nM \<noteq> 0 \<Longrightarrow> nM = n"
    and "nM = 0 \<Longrightarrow> length (spl_prodScript self) = n"
  shows "split_body cs self jb fin fout nM i = Inr (slice_subjob cs self jb i)"
proof -
  have o: "fout \<Longrightarrow> py_getitem (spl_outputFiles self) (int i) = Inr (spl_outputFiles self ! i)"
    using assms(1,2) by (simp add: py_getitem_in_range)
  have i: "fin \<Longrightarrow> py_getitem (spl_inputFiles self) (int i) = Inr (spl_inputFiles self ! i)"
    using assms(1,3) by (simp add: py_getitem_in_range)
  have m: "nM \<noteq> 0 \<Longrightarrow> py_getitem (spl_ratMacro self) (int i) = Inr (spl_ratMacro self ! i)"
    using assms(1,6,7) by (simp add: py_getitem_in_range)
  have s: "nM = 0 \<Longrightarrow> py_getitem (spl_prodScript self) (int i) = Inr (spl_prodScript self ! i)"
    using assms(1,8) by (simp add: py_getitem_in_range)
  have e: "(spl_ratMacro self \<noteq> []) = (nM \<noteq> 0)" using assms(6) by simp
  show ?thesis
    unfolding split_body_def slice_subjob_def Let_def e assms(4)[symmetric] assms(5)[symmetric]
    by (cases fout; cases fin; cases "nM = 0") (simp_all add: o i m s bind_err_def)
qed


lemma split_valid:
  assumes "\<not> rule_violated self"
  shows "split cs self jb = Inr (map (slice_subjob cs self jb) [0..<fileCount self])"
proof -
  let ?n = "fileCount self"
  let ?fin = "length (spl_inputFiles self) \<noteq> 0"
  let ?fout = "length (spl_outputFiles self) \<noteq> 0"
  let ?nM = "length (spl_ratMacro self)"
  let ?nS = "length (spl_prodScript self)"
  from assms have v1: "\<not> (?nS \<noteq> 0 \<and> ?nM \<noteq> 0)"
    and v2: "\<not> (?nS = 0 \<and> ?nM = 0)"
    and v3: "\<not> (?fin = False \<and> ?fout = False)"
    and v4: "\<not> (?fin = True \<and> ?fout = True
                \<and> length (spl_inputFiles self) \<noteq> length (spl_outputFiles self))"
    and v5: "\<not> (?nS \<noteq> 0 \<and> ?nS \<noteq> ?n)"
    and v6: "\<not> (?nM \<noteq> 0 \<and> ?nM \<noteq> ?n)"
    by (simp_all add: rule_violated_def)
  have nF: "(if length (spl_outputFiles self) = 0
             then (if length (spl_inputFiles self) = 0 then 0 else length (spl_inputFiles self))
             else length (spl_outputFiles self)) = ?n"
    using v3 v4 by (auto simp: fileCount_def)
  have no: "?fout \<Longrightarrow> length (spl_outputFiles self) = ?n"
    and ni: "?fin \<Longrightarrow> length (spl_inputFiles self) = ?n"
    using v4 by (auto simp: fileCount_def)
  have body: "\<forall>i \<in> set [0..<?n].
      split_body cs self jb ?fin ?fout ?nM i = Inr (slice_subjob cs self jb i)"
  proof
    fix i assume "i \<in> set [0..<?n]"
    then have "i < ?n" by simp
    then show "split_body cs self jb ?fin ?fout ?nM i = Inr (slice_subjob cs self jb i)"
    proof (rule split_body_slice)
      show "?nM = 0 \<Longrightarrow> ?nS = ?n" using v2 v5 by simp
      show "?nM \<noteq> 0 \<Longrightarrow> ?nM = ?n" using v6 by simp
    qed (use no ni in simp_all)
  qed
  have loop: "split_loop cs self jb ?fin ?fout ?nM [0..<?n] [] =
      Inr (map (slice_subjob cs self jb) [0..<?n])"
    using split_loop_append[OF body, of "[]"] by simp
  show ?thesis
    unfolding split_def Let_def nF
    by (simp only: v1 v2 v3 v4 v5 v6 if_False loop)
qed

lemma guard_chain:
  "g1 \<or> g2 \<or> g3 \<or> g4 \<or> g5 \<or> g6 \<Longrightarrow>
   (if g1 then A else if g2 then A else if g3 then A else if g4 then A
    else if g5 then A else if g6 then A else B) = A"
  by auto

lemma split_invalid:
  assumes "rule_violated self"
  shows "split cs self jb = Inl Exception"
  unfolding split_def Let_def
proof (rule guard_chain)
  show "(length (spl_prodScript self) \<noteq> 0 \<and> length (spl_ratMacro self) \<noteq> 0) \<or>
    (length (spl_prodScript self) = 0 \<and> length (spl_ratMacro self) = 0) \<or>
    ((length (spl_inputFiles self) \<noteq> 0) = False \<and> (length (spl_outputFiles self) \<noteq> 0) = False) \<or>
    ((length (spl_inputFiles self) \<noteq> 0) = True \<and> (length (spl_outputFiles self) \<noteq> 0) = True \<and>
     length (spl_inputFiles self) \<noteq> length (spl_outputFiles self)) \<or>
    (length (spl_prodScript self) \<noteq> 0 \<and>
     length (spl_prodScript self) \<noteq>
     (if length (spl_outputFiles self) = 0
      then if length (spl_inputFiles self) = 0 then 0 else length (spl_inputFiles self)
      else length (spl_outputFiles self))) \<or>
    (length (spl_ratMacro self) \<noteq> 0 \<and>
    length (spl_ratMacro self) \<noteq>
    (if length (spl_outputFiles self) = 0
     then if length (spl_inputFiles self) = 0 then 0 else length (spl_inputFiles self)
     else length (spl_outputFiles self)))"
    using assms unfolding rule_violated_def fileCount_def
    by (cases "spl_inputFiles self = []"; cases "spl_outputFiles self = []";
        cases "spl_prodScript self = []"; cases "spl_ratMacro self = []") auto
qed

lemma example_request_valid: "\<not> rule_violated example_request"
  by (simp add: rule_violated_def example_request_def fileCount_def)

lemma example_fileCount: "fileCount example_request = 2"
  by (simp add: example_request_def fileCount_def)

lemma both_request_violated: "rule_violated both_request"
  by (simp add: rule_violated_def both_request_def example_request_def)

text \<open>
  Claim C1. For every request that passes validation (no rule violated),
  \<^verbatim>\<open>RATSplitter.split\<close> returns exactly \<open>fileCount\<close> sub-jobs, \<open>fileCount\<close> being the common
  length of the non-empty input and output sequences, in ascending index order: the
  \<open>i\<close>-th sub-job is the copy of the job (\<^verbatim>\<open>createSubjob\<close>) whose \<^verbatim>\<open>outputFiles\<close> is
  \<^verbatim>\<open>outputFiles[i]\<close> when the output sequence is non-empty, whose \<^verbatim>\<open>inputFiles\<close> is
  \<^verbatim>\<open>inputFiles[i]\<close> when the input sequence is non-empty, and in which exactly one of
  \<^verbatim>\<open>ratMacro\<close> and \<^verbatim>\<open>prodScript\<close> is set, to the \<open>i\<close>-th entry of the populated sequence; every
  field that is not set stays as the copy has it.
\<close>

theorem split_slices:
  assumes "\<not> rule_violated self"
  shows "\<exists>js. split createSubjob self jb = Inr js
    \<and> length js = fileCount self
    \<and> (spl_inputFiles self \<noteq> [] \<longrightarrow> fileCount self = length (spl_inputFiles self))
    \<and> (spl_outputFiles self \<noteq> [] \<longrightarrow> fileCount self = length (spl_outputFiles self))
    \<and> js = map (slice_subjob createSubjob self jb) [0..<fileCount self]
    \<and> (\<forall>i < fileCount self.
         (spl_outputFiles self \<noteq> [] \<longrightarrow>
            outputFiles (application (js ! i)) = spl_outputFiles self ! i)
       \<and> (spl_outputFiles self = [] \<longrightarrow>
            outputFiles (application (js ! i)) = outputFiles (application (createSubjob jb)))
       \<and> (spl_inputFiles self \<noteq> [] \<longrightarrow>
            inputFiles (application (js ! i)) = spl_inputFiles self ! i)
       \<and> (spl_inputFiles self = [] \<longrightarrow>
            inputFiles (application (js ! i)) = inputFiles (application (createSubjob jb)))
       \<and> (spl_ratMacro self \<noteq> [] \<longrightarrow>
            ratMacro (application (js ! i)) = spl_ratMacro self ! i
            \<and> prodScript (application (js ! i)) = prodScript (application (createSubjob jb)))
       \<and> (spl_prodScript self \<noteq> [] \<longrightarrow>
            prodScript (application (js ! i)) = spl_prodScript self ! i
            \<and> ratMacro (application (js ! i)) = ratMacro (application (createSubjob jb))))"
proof -
  let ?js = "map (slice_subjob createSubjob self jb) [0..<fileCount self]"
  from assms have one: "spl_prodScript self \<noteq> [] \<Longrightarrow> spl_ratMacro self = []"
    and eq: "spl_inputFiles self \<noteq> [] \<Longrightarrow> spl_outputFiles self \<noteq> [] \<Longrightarrow>
               length (spl_inputFiles self) = length (spl_outputFiles self)"
    by (auto simp: rule_violated_def)
  have "split createSubjob self jb = Inr ?js" by (rule split_valid[OF assms])
  moreover have "length ?js = fileCount self" by simp
  moreover have "spl_inputFiles self \<noteq> [] \<longrightarrow> fileCount self = length (spl_inputFiles self)"
    by (simp add: fileCount_def)
  moreover have "spl_outputFiles self \<noteq> [] \<longrightarrow> fileCount self = length (spl_outputFiles self)"
    using eq by (simp add: fileCount_def)
  moreover have "\<forall>i < fileCount self.
         (spl_outputFiles self \<noteq> [] \<longrightarrow>
            outputFiles (application (?js ! i)) = spl_outputFiles self ! i)
       \<and> (spl_outputFiles self = [] \<longrightarrow>
            outputFiles (application (?js ! i)) = outputFiles (application (createSubjob jb)))
       \<and> (spl_inputFiles self \<noteq> [] \<longrightarrow>
            inputFiles (application (?js ! i)) = spl_inputFiles self ! i)
       \<and> (spl_inputFiles self = [] \<longrightarrow>
            inputFiles (application (?js ! i)) = inputFiles (application (createSubjob jb)))
       \<and> (spl_ratMacro self \<noteq> [] \<longrightarrow>
            ratMacro (application (?js ! i)) = spl_ratMacro self ! i
            \<and> prodScript (application (?js ! i)) = prodScript (application (createSubjob jb)))
       \<and> (spl_prodScript self \<noteq> [] \<longrightarrow>
            prodScript (application (?js ! i)) = spl_prodScript self ! i
            \<and> ratMacro (application (?js ! i)) = ratMacro (application (createSubjob jb)))"
    using one by (simp add: slice_subjob_def Let_def)
  ultimately show ?thesis by blast
qed

theorem split_slices_witness:
  "\<not> rule_violated example_request
   \<and> (\<exists>js. split (\<lambda>j. j) example_request example_job = Inr js \<and> length js = 2
        \<and> inputFiles (application (js ! 0)) = FStr ''f1.root''
        \<and> outputFiles (application (js ! 0)) = FStr ''o1.root''
        \<and> prodScript (application (js ! 0)) = ''s1.mac''
        \<and> inputFiles (application (js ! 1)) = FStr ''f2.root''
        \<and> outputFiles (application (js ! 1)) = FStr ''o2.root''
        \<and> prodScript (application (js ! 1)) = ''s2.mac'')"
proof -
  from split_slices[OF example_request_valid, of "\<lambda>j. j" example_job]
  obtain js where js: "split (\<lambda>j. j) example_request example_job = Inr js"
    "length js = fileCount example_request"
    and sl: "\<forall>i < fileCount example_request.
         (spl_outputFiles example_request \<noteq> [] \<longrightarrow>
            outputFiles (application (js ! i)) = spl_outputFiles example_request ! i)
       \<and> (spl_inputFiles example_request \<noteq> [] \<longrightarrow>
            inputFiles (application (js ! i)) = spl_inputFiles example_request ! i)
       \<and> (spl_prodScript example_request \<noteq> [] \<longrightarrow>
            prodScript (application (js ! i)) = spl_prodScript example_request ! i)"
    by blast
  have "0 < fileCount example_request" "1 < fileCount example_request"
    by (simp_all add: example_fileCount)
  with sl have
    "outputFiles (application (js ! 0)) = spl_outputFiles example_request ! 0"
    "inputFiles (application (js ! 0)) = spl_inputFiles example_request ! 0"
    "prodScript (application (js ! 0)) = spl_prodScript example_request ! 0"
    "outputFiles (application (js ! 1)) = spl_outputFiles example_request ! 1"
    "inputFiles (application (js ! 1)) = spl_inputFiles example_request ! 1"
    "prodScript (application (js ! 1)) = spl_prodScript example_request ! 1"
    by (simp_all add: example_request_def)
  moreover have "length js = 2" using js(2) by (simp only: example_fileCount)
  ultimately show ?thesis
    using js(1) example_request_valid by (simp add: example_request_def)
qed

text \<open>
  Claim C2. \<^verbatim>\<open>RATSplitter.split\<close> raises, producing no sub-jobs, if and only if a validation
  rule is violated: scripts and macros both non-empty, or both empty; inputs and outputs
  both empty; inputs and outputs both non-empty with unequal lengths; or the length of the
  populated script or macro sequence differs from the file count. The failure is the
  module's \<^verbatim>\<open>raise Exception\<close>; otherwise the call returns a list.
\<close>

theorem split_fails_iff:
  "((\<exists>e. split createSubjob self jb = Inl e) \<longleftrightarrow> rule_violated self)
   \<and> (rule_violated self \<longrightarrow> split createSubjob self jb = Inl Exception)
   \<and> (\<not> rule_violated self \<longrightarrow> (\<exists>js. split createSubjob self jb = Inr js))"
proof (cases "rule_violated self")
  case True
  then show ?thesis using split_invalid[of self createSubjob jb] by simp
next
  case False
  then show ?thesis using split_valid[of self createSubjob jb] by simp
qed

theorem split_fails_iff_witness:
  "rule_violated both_request
   \<and> split (\<lambda>j. j) both_request example_job = Inl Exception
   \<and> \<not> rule_violated example_request
   \<and> (\<exists>js. split (\<lambda>j. j) example_request example_job = Inr js)"
  using split_fails_iff[of "\<lambda>j. j" both_request example_job]
    split_fails_iff[of "\<lambda>j. j" example_request example_job]
    both_request_violated example_request_valid
  by simp

subsection \<open>Properties of the serialized lists and of the run file\<close>

lemma foldl_items: "foldl (\<lambda>acc var. acc @ var @ '','') acc xs = acc @ concat (map (\<lambda>v. v @ '','') xs)"
  by (induction xs arbitrary: acc) simp_all

lemma concat_items: "xs \<noteq> [] \<Longrightarrow> concat (map (\<lambda>v. v @ '','') xs) = comma_join xs @ '',''"
  by (induction xs rule: comma_join.induct) simp_all

lemma serialize_files_iter:
  "serialize_files fs = (if py_iter fs = [] then ''['' else ''['' @ comma_join (py_iter fs) @ '']'')"
proof (cases "py_iter fs = []")
  case True
  then show ?thesis by (simp add: serialize_files_def)
next
  case False
  have "butlast (''['' @ comma_join (py_iter fs) @ '','') = ''['' @ comma_join (py_iter fs)"
    by (simp add: butlast_append)
  with False show ?thesis
    by (simp add: serialize_files_def foldl_items concat_items Let_def)
qed

lemma py_split_last:
  "py_split c xs \<noteq> [] \<and> last (py_split c xs) = rev (takeWhile (\<lambda>a. a \<noteq> c) (rev xs))
   \<and> (tl (py_split c xs) = [] \<longleftrightarrow> c \<notin> set xs)"
proof (induction xs)
  case Nil
  then show ?case by simp
next
  case (Cons x xs)
  then show ?case
  proof -
    have "c \<notin> set xs \<Longrightarrow> takeWhile (\<lambda>a. a \<noteq> c) (rev xs) = rev xs"
      by (rule takeWhile_eq_all_conv[THEN iffD2]) auto
    then have all: "c \<notin> set xs \<Longrightarrow> rev (takeWhile (\<lambda>a. a \<noteq> c) (rev xs)) = xs"
      by (metis rev_rev_ident)
    from Cons all show ?thesis
      by (cases "py_split c xs") (auto simp: Let_def takeWhile_append split: if_splits)
  qed
qed

lemma last_component_basename: "last_component p = Inr (basename p)"
proof -
  let ?d = "py_split CHR ''/'' p"
  have ne: "?d \<noteq> []" and l: "last ?d = basename p"
    using py_split_last[of "CHR ''/''" p] by (simp_all add: basename_def)
  have "int (length ?d) - 1 = int (length ?d - 1)" using ne by (cases ?d) simp_all
  moreover have "length ?d - 1 < length ?d" using ne by simp
  ultimately have "py_getitem ?d (int (length ?d) - 1) = Inr (?d ! (length ?d - 1))"
    using py_getitem_in_range by metis
  then show ?thesis using ne l by (simp add: last_component_def last_conv_nth Let_def)
qed

lemma basename_no_slash: "CHR ''/'' \<notin> set (basename p)"
  unfolding basename_def using set_takeWhileD by fastforce

lemma basename_split: "\<exists>pre. p = pre @ basename p \<and> (pre = [] \<or> last pre = CHR ''/'')"
proof -
  let ?P = "\<lambda>c. c \<noteq> CHR ''/''"
  have "rev p = takeWhile ?P (rev p) @ dropWhile ?P (rev p)" by simp
  then have p: "p = rev (dropWhile ?P (rev p)) @ basename p"
    unfolding basename_def by (metis rev_append rev_rev_ident)
  have "dropWhile ?P (rev p) = [] \<or> \<not> ?P (hd (dropWhile ?P (rev p)))"
    using hd_dropWhile by blast
  then have "rev (dropWhile ?P (rev p)) = [] \<or> last (rev (dropWhile ?P (rev p))) = CHR ''/''"
    by (auto simp: last_rev)
  with p show ?thesis by blast
qed

lemma run_file_eq:
  "run_file app = Inr (if ratMacro app \<noteq> [] then (PyStr (basename (ratMacro app)), PyNone)
                       else (PyNone, PyStr (basename (prodScript app))))"
  by (simp add: run_file_def last_component_basename bind_err_def)

text \<open>
  Where something was added the bracket is closed: a non-empty list of file names is
  rendered as \<^verbatim>\<open>[a]\<close> for a single element and as the bracketed, comma-joined \<^verbatim>\<open>[a,b,...]\<close>
  with no comma after the last element for two or more.
\<close>

lemma serialize_files_nonempty:
  "xs \<noteq> [] \<Longrightarrow> serialize_files (FList xs) = ''['' @ comma_join xs @ '']''"
  by (simp add: serialize_files_iter)

lemma serialize_files_one_two:
  "serialize_files (FList [a]) = ''['' @ a @ '']''"
  "serialize_files (FList [a, b]) = ''['' @ a @ '','' @ b @ '']''"
  by (simp_all add: serialize_files_iter)

text \<open>
  Claim C3. The serialized token of a list of file names is to be \<^verbatim>\<open>[]\<close> for the empty
  list, \<^verbatim>\<open>[a]\<close> for a single element and \<^verbatim>\<open>[a,b]\<close>, with no comma after the last element,
  for two or more. The code closes the bracket in the statement that removes the final
  comma (``remove final comma, add close bracket''), and runs that statement only under
  the guard \<^verbatim>\<open>len(foutList) != 1\<close>, which keeps \<^verbatim>\<open>[:-1]\<close> from removing the opening bracket.
  For the empty list nothing was added, the guard skips the statement and the bracket
  is never closed: the code evaluated at the empty list yields \<^verbatim>\<open>[\<close>, not \<^verbatim>\<open>[]\<close>.
\<close>

theorem serialize_empty_list_unclosed:
  "serialize_files (FList []) = ''['' \<and> serialize_files (FList []) \<noteq> ''[]''"
  by (simp add: serialize_files_def)

text \<open>
  Claim C8. The resolved run file is the last \<^verbatim>\<open>/\<close>-separated component of the macro
  path when \<^verbatim>\<open>ratMacro\<close> is non-empty (then \<^verbatim>\<open>prodFile\<close> stays \<^verbatim>\<open>None\<close>), and of the script
  path otherwise (then \<^verbatim>\<open>macroFile\<close> stays \<^verbatim>\<open>None\<close>); the resolution never fails. The last
  component of a path \<open>p\<close> is the last piece of \<^verbatim>\<open>p.split('/')\<close>: the end of \<open>p\<close> that holds no
  \<^verbatim>\<open>/\<close> and follows the last \<^verbatim>\<open>/\<close> of \<open>p\<close>, or all of \<open>p\<close> when it holds none.
\<close>

theorem run_file_last_component:
  "run_file app =
     Inr (if ratMacro app \<noteq> [] then (PyStr (basename (ratMacro app)), PyNone)
          else (PyNone, PyStr (basename (prodScript app))))
   \<and> basename p = last (py_split CHR ''/'' p)
   \<and> (\<exists>pre. p = pre @ basename p \<and> (pre = [] \<or> last pre = CHR ''/''))
   \<and> CHR ''/'' \<notin> set (basename p)"
proof -
  have "basename p = last (py_split CHR ''/'' p)"
    using py_split_last[of "CHR ''/''" p] by (simp add: basename_def)
  then show ?thesis
    using run_file_eq[of app] basename_split[of p] basename_no_slash[of p] by simp
qed

subsection \<open>Properties of the argument assembly\<close>

lemma get_option_Some: "c k = Some v \<Longrightarrow> get_option c k = Inr v"
  by (simp add: get_option_def)

lemma front_string_args_eq:
  "front_string_args app swDir foutList finList mp a =
     a @ ''-v '' @ ratVersion app @ '' '' @ ''-s '' @ swDir @ '' ''
       @ ''-d '' @ outputDir app @ '' '' @ ''-o '' @ foutList @ '' ''
       @ ''-x '' @ inputDir app @ '' '' @ ''-i '' @ finList @ '' ''
       @ (if ratMacro app \<noteq> [] then ''-m '' @ fmt_s (fst mp) @ '' ''
          else ''-k -m '' @ fmt_s (snd mp) @ '' '')"
  by (simp add: front_string_args_def Let_def)

lemma back_string_args_eq:
  assumes "useDB app \<Longrightarrow> holds_db c u p n pr url"
  shows "back_string_args c app a =
     Inr (a @ (if useDB app
               then ''--dbuser '' @ fmt_s u @ '' '' @ ''--dbpassword '' @ fmt_s p @ '' ''
                    @ ''--dbname '' @ fmt_s n @ '' '' @ ''--dbprotocol '' @ fmt_s pr @ '' ''
                    @ ''--dburl '' @ fmt_s url @ '' ''
               else [])
            @ (if discardOutput app then ''--nostore '' else []))"
proof (cases "useDB app")
  case True
  with assms have "holds_db c u p n pr url" by simp
  then have "get_option c ''rat_db_user'' = Inr u" "get_option c ''rat_db_pswd'' = Inr p"
    "get_option c ''rat_db_name'' = Inr n" "get_option c ''rat_db_protocol'' = Inr pr"
    "get_option c ''rat_db_url'' = Inr url"
    by (simp_all add: holds_db_def get_option_Some)
  with True show ?thesis by (simp add: back_string_args_def bind_err_def)
next
  case False
  then show ?thesis by (simp add: back_string_args_def bind_err_def)
qed

lemma list_args_eq:
  assumes "useDB app \<Longrightarrow> holds_db c u p n pr url"
  shows "list_args c app swDir foutList finList mp =
     Inr ([PyStr ''-v'', PyStr (ratVersion app), PyStr ''-s'', PyStr swDir,
           PyStr ''-d'', PyStr (outputDir app), PyStr ''-o'', PyStr foutList,
           PyStr ''-x'', PyStr (inputDir app), PyStr ''-i'', PyStr finList]
          @ (if ratMacro app \<noteq> [] then [PyStr ''-m'', fst mp]
             else [PyStr ''-k'', PyStr ''-m'', snd mp])
          @ (if useDB app
             then [PyStr ''--dbuser'', u, PyStr ''--dbpassword'', p, PyStr ''--dbname'', n,
                   PyStr ''--dbprotocol'', pr, PyStr ''--dburl'', url]
             else [])
          @ (if discardOutput app then [PyStr ''--nostore''] else []))"
proof (cases "useDB app")
  case True
  with assms have "holds_db c u p n pr url" by simp
  then have "get_option c ''rat_db_user'' = Inr u" "get_option c ''rat_db_pswd'' = Inr p"
    "get_option c ''rat_db_name'' = Inr n" "get_option c ''rat_db_protocol'' = Inr pr"
    "get_option c ''rat_db_url'' = Inr url"
    by (simp_all add: holds_db_def get_option_Some)
  with True show ?thesis by (simp add: list_args_def bind_err_def Let_def)
next
  case False
  then show ?thesis by (simp add: list_args_def bind_err_def Let_def)
qed

lemma RTHandler_prepare_list:
  assumes "environment (application jb) = EnvNone" and "ratDirectory (application jb) \<noteq> []"
  shows "RTHandler_prepare h os jb =
     (case list_args (app_config h) (application jb) (ratDirectory (application jb))
             (serialize_files (outputFiles (application jb)))
             (serialize_files (inputFiles (application jb)))
             (if ratMacro (application jb) \<noteq> []
              then (PyStr (basename (ratMacro (application jb))), PyNone)
              else (PyNone, PyStr (basename (prodScript (application jb))))) of
        Inl e \<Rightarrow> (Inl e, jb, os)
      | Inr args \<Rightarrow>
          (Inr \<lparr>config_class = StandardJobConfig,
                exe = FileObj (app_directory h @ ''/ratProdRunner.py''),
                inputbox = inputsandbox jb, outputbox = outputsandbox jb,
                cfg_args = args\<rparr>, jb, os))"
  using assms by (simp add: RTHandler_prepare_def run_file_eq Let_def)

lemma list_args_run_file:
  assumes db: "useDB app \<Longrightarrow> holds_db c u p n pr url"
  shows "list_args c app sw fo fi
          (if ratMacro app \<noteq> [] then (PyStr (basename (ratMacro app)), PyNone)
             else (PyNone, PyStr (basename (prodScript app)))) = 
     Inr ([PyStr ''-v'', PyStr (ratVersion app), PyStr ''-s'', PyStr sw,
           PyStr ''-d'', PyStr (outputDir app), PyStr ''-o'', PyStr fo,
           PyStr ''-x'', PyStr (inputDir app), PyStr ''-i'', PyStr fi]
          @ (if ratMacro app \<noteq> [] then [PyStr ''-m'', PyStr (basename (ratMacro app))]
             else [PyStr ''-k'', PyStr ''-m'', PyStr (basename (prodScript app))])
          @ (if useDB app
             then [PyStr ''--dbuser'', u, PyStr ''--dbpassword'', p, PyStr ''--dbname'', n,
                   PyStr ''--dbprotocol'', pr, PyStr ''--dburl'', url]
             else [])
          @ (if discardOutput app then [PyStr ''--nostore''] else []))"
  apply (subst list_args_eq[OF db])
   apply assumption
  apply (cases "ratMacro app = []")
   apply simp
  apply simp
  done



text \<open>
  Claim C4. Without an environment override, \<^verbatim>\<open>RTHandler.prepare\<close> (which needs a
  non-empty \<^verbatim>\<open>ratDirectory\<close>, and the five database entries when \<^verbatim>\<open>useDB\<close> is set) returns a
  configuration whose arguments are exactly, in this order: \<^verbatim>\<open>-v\<close> version, \<^verbatim>\<open>-s\<close> software
  directory, \<^verbatim>\<open>-d\<close> output directory, \<^verbatim>\<open>-o\<close> serialized output list, \<^verbatim>\<open>-x\<close> input directory,
  \<^verbatim>\<open>-i\<close> serialized input list, then \<^verbatim>\<open>-m\<close> macro file in macro mode or \<^verbatim>\<open>-k -m\<close> script file
  in script mode, then the database tokens if and only if \<^verbatim>\<open>useDB\<close> is set, then
  \<^verbatim>\<open>--nostore\<close> if and only if \<^verbatim>\<open>discardOutput\<close> is set. The job and the operating system
  are left as they were. In particular, in macro mode with \<^verbatim>\<open>discardOutput\<close> the token after
  the input list is \<^verbatim>\<open>-m\<close> (not \<^verbatim>\<open>-k\<close>), followed by the macro file, and the last token is
  \<^verbatim>\<open>--nostore\<close>.
\<close>

theorem RTHandler_list_args:
  assumes "application jb = app"
    and "environment app = EnvNone"
    and "ratDirectory app \<noteq> []"
    and "useDB app \<longrightarrow> holds_db (app_config h) u p n pr url"
  shows "\<exists>c. RTHandler_prepare h os jb = (Inr c, jb, os)
    \<and> cfg_args c =
        [PyStr ''-v'', PyStr (ratVersion app), PyStr ''-s'', PyStr (ratDirectory app),
         PyStr ''-d'', PyStr (outputDir app),
         PyStr ''-o'', PyStr (serialize_files (outputFiles app)),
         PyStr ''-x'', PyStr (inputDir app),
         PyStr ''-i'', PyStr (serialize_files (inputFiles app))]
        @ (if ratMacro app \<noteq> [] then [PyStr ''-m'', PyStr (basename (ratMacro app))]
           else [PyStr ''-k'', PyStr ''-m'', PyStr (basename (prodScript app))])
        @ (if useDB app
           then [PyStr ''--dbuser'', u, PyStr ''--dbpassword'', p, PyStr ''--dbname'', n,
                 PyStr ''--dbprotocol'', pr, PyStr ''--dburl'', url]
           else [])
        @ (if discardOutput app then [PyStr ''--nostore''] else [])
    \<and> (ratMacro app \<noteq> [] \<and> discardOutput app \<longrightarrow>
          cfg_args c ! 12 = PyStr ''-m'' \<and> cfg_args c ! 13 = PyStr (basename (ratMacro app))
          \<and> last (cfg_args c) = PyStr ''--nostore'')"
proof -
  let ?mp = "if ratMacro app \<noteq> [] then (PyStr (basename (ratMacro app)), PyNone)
             else (PyNone, PyStr (basename (prodScript app)))"
  let ?args = "[PyStr ''-v'', PyStr (ratVersion app), PyStr ''-s'', PyStr (ratDirectory app),
         PyStr ''-d'', PyStr (outputDir app),
         PyStr ''-o'', PyStr (serialize_files (outputFiles app)),
         PyStr ''-x'', PyStr (inputDir app),
         PyStr ''-i'', PyStr (serialize_files (inputFiles app))]
        @ (if ratMacro app \<noteq> [] then [PyStr ''-m'', PyStr (basename (ratMacro app))]
           else [PyStr ''-k'', PyStr ''-m'', PyStr (basename (prodScript app))])
        @ (if useDB app
           then [PyStr ''--dbuser'', u, PyStr ''--dbpassword'', p, PyStr ''--dbname'', n,
                 PyStr ''--dbprotocol'', pr, PyStr ''--dburl'', url]
           else [])
        @ (if discardOutput app then [PyStr ''--nostore''] else [])"
  have db: "useDB app \<Longrightarrow> holds_db (app_config h) u p n pr url" using assms(4) by simp
  have la: "list_args (app_config h) app (ratDirectory app) (serialize_files (outputFiles app))
          (serialize_files (inputFiles app)) ?mp = Inr ?args"
    by (rule list_args_run_file[OF db])
  have e': "environment (application jb) = EnvNone" and d': "ratDirectory (application jb) \<noteq> []"
    using assms(1,2,3) by simp_all
  have prep: "RTHandler_prepare h os jb =
      (Inr \<lparr>config_class = StandardJobConfig,
            exe = FileObj (app_directory h @ ''/ratProdRunner.py''),
            inputbox = inputsandbox jb, outputbox = outputsandbox jb,
            cfg_args = ?args\<rparr>, jb, os)"
    unfolding RTHandler_prepare_list[OF e' d'] unfolding assms(1) la by simp
  have part: "ratMacro app \<noteq> [] \<and> discardOutput app \<longrightarrow>
      ?args ! 12 = PyStr ''-m'' \<and> ?args ! 13 = PyStr (basename (ratMacro app))
      \<and> last ?args = PyStr ''--nostore''"
    by simp
  let ?c = "\<lparr>config_class = StandardJobConfig,
            exe = FileObj (app_directory h @ ''/ratProdRunner.py''),
            inputbox = inputsandbox jb, outputbox = outputsandbox jb,
            cfg_args = ?args\<rparr>"
  have sel: "cfg_args ?c = ?args" by simp
  show ?thesis
    by (rule exI[of _ ?c]) (simp only: prep sel simp_thms, rule part)
qed

theorem RTHandler_list_args_witness:
  "environment example_app = EnvNone \<and> ratDirectory example_app \<noteq> []
   \<and> ratMacro example_app \<noteq> [] \<and> discardOutput example_app
   \<and> (\<exists>c. RTHandler_prepare example_host example_os example_job = (Inr c, example_job, example_os)
        \<and> cfg_args c =
            [PyStr ''-v'', PyStr ''5'', PyStr ''-s'', PyStr ''/sw'', PyStr ''-d'', PyStr ''out'',
             PyStr ''-o'', PyStr ''['', PyStr ''-x'', PyStr ''in'', PyStr ''-i'', PyStr ''['',
             PyStr ''-m'', PyStr ''run.mac'', PyStr ''--nostore''])"
proof -
  have a: "application example_job = example_app" by (simp add: example_job_def)
  have e: "environment example_app = EnvNone" and d: "ratDirectory example_app \<noteq> []"
    and m: "ratMacro example_app \<noteq> []" and o: "discardOutput example_app"
    and u: "\<not> useDB example_app"
    by (simp_all add: example_app_def)
  have u': "useDB example_app \<longrightarrow> holds_db (app_config example_host) PyNone PyNone PyNone PyNone PyNone"
    using u by simp
  have b: "basename (ratMacro example_app) = ''run.mac''"
    by (simp add: example_app_def basename_def)
  have s: "serialize_files (outputFiles example_app) = ''[''"
    "serialize_files (inputFiles example_app) = ''[''"
    by (simp_all add: example_app_def serialize_files_def)
  have v: "ratVersion example_app = ''5''" "ratDirectory example_app = ''/sw''"
    "outputDir example_app = ''out''" "inputDir example_app = ''in''"
    by (simp_all add: example_app_def)
  from RTHandler_list_args[OF a e d u', of example_os]
  obtain c where c: "RTHandler_prepare example_host example_os example_job
        = (Inr c, example_job, example_os)"
    and ca: "cfg_args c =
        [PyStr ''-v'', PyStr (ratVersion example_app), PyStr ''-s'',
         PyStr (ratDirectory example_app),
         PyStr ''-d'', PyStr (outputDir example_app),
         PyStr ''-o'', PyStr (serialize_files (outputFiles example_app)),
         PyStr ''-x'', PyStr (inputDir example_app),
         PyStr ''-i'', PyStr (serialize_files (inputFiles example_app))]
        @ (if ratMacro example_app \<noteq> []
           then [PyStr ''-m'', PyStr (basename (ratMacro example_app))]
           else [PyStr ''-k'', PyStr ''-m'', PyStr (basename (prodScript example_app))])
        @ (if useDB example_app
           then [PyStr ''--dbuser'', PyNone, PyStr ''--dbpassword'', PyNone,
                 PyStr ''--dbname'', PyNone, PyStr ''--dbprotocol'', PyNone,
                 PyStr ''--dburl'', PyNone]
           else [])
        @ (if discardOutput example_app then [PyStr ''--nostore''] else [])"
    by blast
  have "cfg_args c =
            [PyStr ''-v'', PyStr ''5'', PyStr ''-s'', PyStr ''/sw'', PyStr ''-d'', PyStr ''out'',
             PyStr ''-o'', PyStr ''['', PyStr ''-x'', PyStr ''in'', PyStr ''-i'', PyStr ''['',
             PyStr ''-m'', PyStr ''run.mac'', PyStr ''--nostore'']"
    unfolding ca using m o u by (simp add: b s v)
  with c e d m o show ?thesis by blast
qed

subsection \<open>Properties of configure\<close>

lemma configure_result:
  assumes "configure config jb = (Inr u, jb')"
  shows "jb' = jb
    \<lparr>inputsandbox := inputsandbox jb @
        [FileObj (if ratMacro (application jb) \<noteq> [] then ratMacro (application jb)
                  else prodScript (application jb))],
     outputsandbox := outputsandbox jb @
        (if ratMacro (application jb) \<noteq> [] then [''rat.log''] else []) @ [''return_card.js''],
     application := (application jb)
        \<lparr>inputFiles := (case inputFiles (application jb) of
                          FStr s \<Rightarrow> FList [s] | FList xs \<Rightarrow> FList xs),
         outputFiles := (case outputFiles (application jb) of
                          FStr s \<Rightarrow> FList [s] | FList xs \<Rightarrow> FList xs)\<rparr>\<rparr>"
  using assms
  by (cases "inputFiles (application jb)"; cases "outputFiles (application jb)")
     (auto simp: configure_def Let_def split: if_splits sum.splits)

lemma single_file_configure:
  "configure Map.empty single_file_job =
     (Inr (), single_file_job
        \<lparr>inputsandbox := [FileObj ''macros/run.mac''],
         outputsandbox := [''rat.log'', ''return_card.js''],
         application := (application single_file_job)
           \<lparr>inputFiles := FList [''f1.root''], outputFiles := FList [''o1.root'']\<rparr>\<rparr>)"
  by (simp add: configure_def single_file_job_def example_job_def example_app_def Let_def)


text \<open>
  Claim C10. If \<^verbatim>\<open>inputFiles\<close> (respectively \<^verbatim>\<open>outputFiles\<close>) of the application holds a
  single string \<open>s\<close> rather than a list, a successful \<^verbatim>\<open>configure\<close> replaces the field, in
  the application of the job it returns, by the one-element list \<^verbatim>\<open>[s]\<close>; a list is left as
  it is, so after \<^verbatim>\<open>configure\<close> has returned both fields are lists.
\<close>

theorem configure_forces_lists:
  assumes "configure config jb = (Inr u, jb')"
  shows "inputFiles (application jb') =
           (case inputFiles (application jb) of FStr s \<Rightarrow> FList [s] | FList xs \<Rightarrow> FList xs)
    \<and> outputFiles (application jb') =
           (case outputFiles (application jb) of FStr s \<Rightarrow> FList [s] | FList xs \<Rightarrow> FList xs)
    \<and> is_list (inputFiles (application jb')) \<and> is_list (outputFiles (application jb'))"
  unfolding configure_result[OF assms]
  by (cases "inputFiles (application jb)"; cases "outputFiles (application jb)") simp_all

theorem configure_forces_lists_witness:
  "inputFiles (application single_file_job) = FStr ''f1.root''
   \<and> outputFiles (application single_file_job) = FStr ''o1.root''
   \<and> fst (configure Map.empty single_file_job) = Inr ()
   \<and> inputFiles (application (snd (configure Map.empty single_file_job))) = FList [''f1.root'']
   \<and> outputFiles (application (snd (configure Map.empty single_file_job))) = FList [''o1.root'']"
proof -
  have i: "inputFiles (application single_file_job) = FStr ''f1.root''"
    and o: "outputFiles (application single_file_job) = FStr ''o1.root''"
    by (simp_all add: single_file_job_def example_job_def example_app_def)
  have c: "configure Map.empty single_file_job =
      (Inr (), snd (configure Map.empty single_file_job))"
    by (simp add: single_file_configure)
  have f: "fst (configure Map.empty single_file_job) = Inr ()"
    by (simp add: single_file_configure)
  from configure_forces_lists[OF c] i o f show ?thesis by simp
qed


text \<open>
  Claim C6. With \<^verbatim>\<open>useDB\<close> set and the database password empty or unset at configuration
  time, \<^verbatim>\<open>configure\<close> raises. The password is the entry \<^verbatim>\<open>rat_db_pswd\<close> of the module's
  configuration object, which is what \<^verbatim>\<open>configure\<close> reads (not the schema field of the same
  name): absent, \<^verbatim>\<open>None\<close> or the empty string. The job is left untouched, and nothing that is
  sequenced after \<^verbatim>\<open>configure\<close>, such as the preparation for the backend, is run.
\<close>

theorem configure_needs_password:
  assumes "useDB (application jb)"
    and "config ''rat_db_pswd'' = None \<or> config ''rat_db_pswd'' = Some PyNone
         \<or> config ''rat_db_pswd'' = Some (PyStr [])"
  shows "\<exists>e. configure config jb = (Inl e, jb)
           \<and> (\<forall>k. bind_err (fst (configure config jb)) k = Inl e)"
proof -
  from assms(2) have "\<exists>e. bind_err (get_option config ''rat_db_pswd'')
        (\<lambda>pswd. if \<not> truthy pswd then Inl Exception else Inr ()) = Inl e"
    by (auto simp: get_option_def bind_err_def)
  then obtain e where "bind_err (get_option config ''rat_db_pswd'')
        (\<lambda>pswd. if \<not> truthy pswd then Inl Exception else Inr ()) = Inl e" by blast
  with assms(1) have "\<exists>e. configure config jb = (Inl e, jb)"
    by (simp add: configure_def Let_def)
  then obtain e' where "configure config jb = (Inl e', jb)" by blast
  then show ?thesis by (simp add: bind_err_def)
qed

theorem configure_needs_password_witness:
  "useDB (application db_job)
   \<and> configure Map.empty db_job = (Inl KeyError, db_job)
   \<and> configure [''rat_db_pswd'' \<mapsto> PyStr []] db_job = (Inl Exception, db_job)
   \<and> configure [''rat_db_pswd'' \<mapsto> PyNone] db_job = (Inl Exception, db_job)"
proof -
  have u: "useDB (application db_job)"
    by (simp add: db_job_def example_job_def)
  have m: "ratMacro (application db_job) \<noteq> []" "prodScript (application db_job) = []"
    by (simp_all add: db_job_def example_job_def example_app_def)
  have 1: "configure Map.empty db_job = (Inl KeyError, db_job)"
    using u m by (simp add: configure_def Let_def get_option_def bind_err_def)
  have 2: "configure [''rat_db_pswd'' \<mapsto> PyStr []] db_job = (Inl Exception, db_job)"
    using u m by (simp add: configure_def Let_def get_option_def bind_err_def)
  have 3: "configure [''rat_db_pswd'' \<mapsto> PyNone] db_job = (Inl Exception, db_job)"
    using u m by (simp add: configure_def Let_def get_option_def bind_err_def)
  from configure_needs_password[OF u, of Map.empty]
    configure_needs_password[OF u, of "[''rat_db_pswd'' \<mapsto> PyStr []]"]
    configure_needs_password[OF u, of "[''rat_db_pswd'' \<mapsto> PyNone]"]
  show ?thesis using u 1 2 3 by simp
qed

subsection \<open>Properties of the three handlers\<close>

lemma front_text_eq:
  "front_string_args app swDir (serialize_files (outputFiles app))
     (serialize_files (inputFiles app))
     (if ratMacro app \<noteq> [] then (PyStr (basename (ratMacro app)), PyNone)
      else (PyNone, PyStr (basename (prodScript app)))) a
   = a @ front_text app swDir"
  by (simp add: front_string_args_eq front_text_def)

lemma back_text_eq:
  assumes "useDB app \<longrightarrow> holds_db c u p n pr url"
  shows "back_string_args c app a = Inr (a @ back_text app u p n pr url)"
proof -
  have "useDB app \<Longrightarrow> holds_db c u p n pr url" using assms by simp
  from back_string_args_eq[OF this] show ?thesis by (simp add: back_text_def)
qed

lemma RTHandler_prepare_closed:
  assumes "application jb = app" and "environment app = EnvNone" and "ratDirectory app \<noteq> []"
    and "useDB app \<longrightarrow> holds_db (app_config h) u p n pr url"
  shows "RTHandler_prepare h os jb =
      (Inr \<lparr>config_class = StandardJobConfig,
            exe = FileObj (app_directory h @ ''/ratProdRunner.py''),
            inputbox = inputsandbox jb, outputbox = outputsandbox jb,
            cfg_args = front_tokens app
              @ (if useDB app
                 then [PyStr ''--dbuser'', u, PyStr ''--dbpassword'', p, PyStr ''--dbname'', n,
                       PyStr ''--dbprotocol'', pr, PyStr ''--dburl'', url]
                 else [])
              @ (if discardOutput app then [PyStr ''--nostore''] else [])\<rparr>, jb, os)"
proof -
  have db: "useDB app \<Longrightarrow> holds_db (app_config h) u p n pr url" using assms(4) by simp
  have e': "environment (application jb) = EnvNone" and d': "ratDirectory (application jb) \<noteq> []"
    using assms(1,2,3) by simp_all
  have la: "list_args (app_config h) app (ratDirectory app) (serialize_files (outputFiles app))
          (serialize_files (inputFiles app))
          (if ratMacro app \<noteq> [] then (PyStr (basename (ratMacro app)), PyNone)
           else (PyNone, PyStr (basename (prodScript app)))) =
      Inr (front_tokens app
           @ (if useDB app
              then [PyStr ''--dbuser'', u, PyStr ''--dbpassword'', p, PyStr ''--dbname'', n,
                    PyStr ''--dbprotocol'', pr, PyStr ''--dburl'', url]
              else [])
           @ (if discardOutput app then [PyStr ''--nostore''] else []))"
    unfolding front_tokens_def append_assoc by (rule list_args_run_file[OF db])
  show ?thesis
    unfolding RTHandler_prepare_list[OF e' d'] unfolding assms(1) la by simp
qed

lemma LCGRTHandler_prepare_closed:
  assumes "application jb = app"
    and "useDB app \<longrightarrow> holds_db (app_config h) u p n pr url"
  shows "LCGRTHandler_prepare h os jb =
      (Inr \<lparr>config_class = LCGJobConfig,
            exe = FileObj (app_directory h @ ''/sillyPythonWrapper.py''),
            inputbox = inputsandbox jb @ [PathStr (app_directory h @ ''/ratProdRunner.py'')],
            outputbox = outputsandbox jb,
            cfg_args = [PyStr ''-s'', PyStr ''ratProdRunner.py'', PyStr ''-l'', PyStr ''lcg'',
                        PyStr ''-a'',
                        PyStr ([CHR 0x22] @ ''-g lcg ''
                               @ front_text app
                                   (if ratDirectory app = []
                                    then ''$VO_SNOPLUS_SNOLAB_CA_SW_DIR/snoing-install''
                                    else ratDirectory app)
                               @ back_text app u p n pr url @ [CHR 0x22])]\<rparr>,
       jb\<lparr>backend := (backend jb)
             \<lparr>requirements_software := ''VO-snoplus.snolab.ca-rat-'' @ ratVersion app\<rparr>,
          inputsandbox := inputsandbox jb @ [PathStr (app_directory h @ ''/ratProdRunner.py'')]\<rparr>,
       os)"
  unfolding LCGRTHandler_prepare_def Let_def assms(1) run_file_eq
  by (simp add: front_text_eq back_text_eq[OF assms(2)])

lemma WGRTHandler_prepare_closed:
  assumes "application jb = app"
    and "useDB app \<longrightarrow> holds_db (app_config h) u p n pr url"
    and "ratDirectory app \<noteq> []"
    and "voproxy (backend jb) = Some vp
         \<or> (voproxy (backend jb) = None \<and> environ os ''X509_USER_PROXY'' = Some vp)"
    and "path_exists os vp"
  shows "WGRTHandler_prepare h os jb =
      (Inr \<lparr>config_class = StandardJobConfig,
            exe = FileObj (app_directory h @ ''/sillyPythonWrapper.py''),
            inputbox = inputsandbox jb @ [PathStr (app_directory h @ ''/ratProdRunner.py'')],
            outputbox = outputsandbox jb,
            cfg_args = [PyStr ''-s'', PyStr ''ratProdRunner.py'', PyStr ''-l'', PyStr ''wg'',
                        PyStr ''-a'',
                        PyStr (''-g srm '' @ front_text app (ratDirectory app)
                               @ ''--voproxy '' @ vp @ '' ''
                               @ back_text app u p n pr url)]\<rparr>,
       jb\<lparr>inputsandbox := inputsandbox jb @ [PathStr (app_directory h @ ''/ratProdRunner.py'')]\<rparr>,
       os)"
proof -
  have v: "(case voproxy (backend jb) of
                None \<Rightarrow> (case environ os ''X509_USER_PROXY'' of
                            None \<Rightarrow> Inl Exception
                          | Some v \<Rightarrow> Inr v)
              | Some v \<Rightarrow> Inr v) = Inr vp"
    using assms(4) by auto
  show ?thesis
    unfolding WGRTHandler_prepare_def Let_def assms(1) run_file_eq v
    using assms(3,5) by (simp add: front_text_eq back_text_eq[OF assms(2)])
qed

lemma example_holds_db:
  "holds_db example_options PyNone (PyStr ''secret'') (PyStr []) PyNone PyNone"
  by (simp add: holds_db_def example_options_def)

lemma example_front_text:
  "front_text example_app sw = ''-v 5 -s '' @ sw @ '' -d out -o [ -x in -i [ -m run.mac ''"
  by (simp add: front_text_def example_app_def serialize_files_def basename_def)

lemma example_front_tokens:
  "front_tokens (example_app\<lparr>useDB := b\<rparr>) =
     [PyStr ''-v'', PyStr ''5'', PyStr ''-s'', PyStr ''/sw'', PyStr ''-d'', PyStr ''out'',
      PyStr ''-o'', PyStr ''['', PyStr ''-x'', PyStr ''in'', PyStr ''-i'', PyStr ''['',
      PyStr ''-m'', PyStr ''run.mac'']"
  by (simp add: front_tokens_def example_app_def serialize_files_def basename_def)

lemma empty_dir_job_app: "application empty_dir_job = example_app\<lparr>ratDirectory := []\<rparr>"
  by (simp add: empty_dir_job_def example_job_def)

lemma example_job_parts:
  "application example_job = example_app" "inputsandbox example_job = []"
  "outputsandbox example_job = []" "voproxy (backend example_job) = None"
  by (simp_all add: example_job_def)

lemma example_back_text: "back_text (example_app\<lparr>ratDirectory := d\<rparr>) u p n pr url = ''--nostore ''"
  by (simp add: back_text_def example_app_def)

lemma example_front_text_dir:
  "front_text (example_app\<lparr>ratDirectory := d\<rparr>) sw =
     ''-v 5 -s '' @ sw @ '' -d out -o [ -x in -i [ -m run.mac ''"
  by (simp add: front_text_def example_app_def serialize_files_def basename_def)


text \<open>
  Claim C5. When \<^verbatim>\<open>useDB\<close> is set, the argument assembler appends, after the run file and
  before \<^verbatim>\<open>--nostore\<close>, exactly the five database tokens with their values, in the order
  \<^verbatim>\<open>--dbuser\<close>, \<^verbatim>\<open>--dbpassword\<close>, \<^verbatim>\<open>--dbname\<close>, \<^verbatim>\<open>--dbprotocol\<close>, \<^verbatim>\<open>--dburl\<close>; the values are
  whatever the configuration object holds, \<^verbatim>\<open>None\<close> and the empty string included, for
  nothing is validated there. When the flag is not set none of these tokens is appended
  and the result does not depend on the configuration object at all. Of the five entries
  only the password is checked, and only by \<^verbatim>\<open>configure\<close>: with \<^verbatim>\<open>useDB\<close> set and one of
  script and macro given, \<^verbatim>\<open>configure\<close> succeeds exactly when the password entry is a
  non-empty string.
\<close>

theorem db_tokens:
  assumes "application jb = app" and "environment app = EnvNone" and "ratDirectory app \<noteq> []"
  shows "(useDB app \<and> holds_db (app_config h) u p n pr url \<longrightarrow>
            (\<exists>c. RTHandler_prepare h os jb = (Inr c, jb, os)
               \<and> cfg_args c = front_tokens app
                    @ [PyStr ''--dbuser'', u, PyStr ''--dbpassword'', p, PyStr ''--dbname'', n,
                       PyStr ''--dbprotocol'', pr, PyStr ''--dburl'', url]
                    @ (if discardOutput app then [PyStr ''--nostore''] else [])))
    \<and> (\<not> useDB app \<longrightarrow>
            (\<exists>c. RTHandler_prepare h os jb = (Inr c, jb, os)
               \<and> cfg_args c = front_tokens app
                    @ (if discardOutput app then [PyStr ''--nostore''] else []))
            \<and> (\<forall>cf. RTHandler_prepare (h\<lparr>app_config := cf\<rparr>) os jb = RTHandler_prepare h os jb))
    \<and> (useDB app \<and> (prodScript app = []) \<noteq> (ratMacro app = []) \<longrightarrow>
            (fst (configure config jb) = Inr ())
              = (\<exists>v. config ''rat_db_pswd'' = Some v \<and> truthy v))"
proof (intro conjI impI)
  assume a: "useDB app \<and> holds_db (app_config h) u p n pr url"
  then have "useDB app \<longrightarrow> holds_db (app_config h) u p n pr url" by simp
  from RTHandler_prepare_closed[OF assms this, of os] a
  show "\<exists>c. RTHandler_prepare h os jb = (Inr c, jb, os)
               \<and> cfg_args c = front_tokens app
                    @ [PyStr ''--dbuser'', u, PyStr ''--dbpassword'', p, PyStr ''--dbname'', n,
                       PyStr ''--dbprotocol'', pr, PyStr ''--dburl'', url]
                    @ (if discardOutput app then [PyStr ''--nostore''] else [])"
    by simp
next
  assume a: "\<not> useDB app"
  then have v: "\<And>c. useDB app \<longrightarrow> holds_db c PyNone PyNone PyNone PyNone PyNone" by simp
  from RTHandler_prepare_closed[OF assms v, of h os] a
  show "\<exists>c. RTHandler_prepare h os jb = (Inr c, jb, os)
               \<and> cfg_args c = front_tokens app
                    @ (if discardOutput app then [PyStr ''--nostore''] else [])"
    by simp
  show "\<forall>cf. RTHandler_prepare (h\<lparr>app_config := cf\<rparr>) os jb = RTHandler_prepare h os jb"
  proof
    fix cf
    show "RTHandler_prepare (h\<lparr>app_config := cf\<rparr>) os jb = RTHandler_prepare h os jb"
      unfolding RTHandler_prepare_closed[OF assms v, of h os]
        RTHandler_prepare_closed[OF assms v, of "h\<lparr>app_config := cf\<rparr>" os]
      by simp
  qed
next
  assume a: "useDB app \<and> (prodScript app = []) \<noteq> (ratMacro app = [])"
  show "(fst (configure config jb) = Inr ()) = (\<exists>v. config ''rat_db_pswd'' = Some v \<and> truthy v)"
  proof (cases "config ''rat_db_pswd''")
    case None
    with a show ?thesis
      by (auto simp: configure_def assms(1) Let_def get_option_def bind_err_def)
  next
    case (Some v)
    with a show ?thesis
      by (cases "truthy v")
         (auto simp: configure_def assms(1) Let_def get_option_def bind_err_def
               split: files.splits)
  qed
qed

theorem db_tokens_witness:
  "useDB (application db_job) \<and> holds_db (app_config example_host) PyNone (PyStr ''secret'') (PyStr []) PyNone PyNone
   \<and> (\<exists>c. RTHandler_prepare example_host example_os db_job = (Inr c, db_job, example_os)
        \<and> cfg_args c =
            [PyStr ''-v'', PyStr ''5'', PyStr ''-s'', PyStr ''/sw'', PyStr ''-d'', PyStr ''out'',
             PyStr ''-o'', PyStr ''['', PyStr ''-x'', PyStr ''in'', PyStr ''-i'', PyStr ''['',
             PyStr ''-m'', PyStr ''run.mac'',
             PyStr ''--dbuser'', PyNone, PyStr ''--dbpassword'', PyStr ''secret'',
             PyStr ''--dbname'', PyStr [], PyStr ''--dbprotocol'', PyNone,
             PyStr ''--dburl'', PyNone, PyStr ''--nostore''])
   \<and> fst (configure example_options db_job) = Inr ()
   \<and> fst (configure [''rat_db_user'' \<mapsto> PyStr ''me''] db_job) \<noteq> Inr ()"
proof -
  let ?app = "example_app\<lparr>useDB := True\<rparr>"
  have a: "application db_job = ?app" by (simp add: db_job_def example_job_def)
  have e: "environment ?app = EnvNone" and d: "ratDirectory ?app \<noteq> []"
    and u: "useDB ?app" and o: "discardOutput ?app"
    and m: "(prodScript ?app = []) \<noteq> (ratMacro ?app = [])"
    by (simp_all add: example_app_def)
  have hd: "holds_db (app_config example_host) PyNone (PyStr ''secret'') (PyStr []) PyNone PyNone"
    by (simp add: example_host_def example_holds_db)
  have p1: "\<exists>v. example_options ''rat_db_pswd'' = Some v \<and> truthy v"
    by (simp add: example_options_def)
  have p2: "\<not> (\<exists>v. [''rat_db_user'' \<mapsto> PyStr ''me''] ''rat_db_pswd'' = Some v \<and> truthy v)"
    by simp
  note t1 = db_tokens[OF a e d, of example_host PyNone "PyStr ''secret''" "PyStr []" PyNone PyNone
      example_os example_options]
  note t2 = db_tokens[OF a e d, of example_host PyNone "PyStr ''secret''" "PyStr []" PyNone PyNone
      example_os "[''rat_db_user'' \<mapsto> PyStr ''me'']"]
  from t1 u hd obtain c where c: "RTHandler_prepare example_host example_os db_job
        = (Inr c, db_job, example_os)"
    "cfg_args c = front_tokens ?app
        @ [PyStr ''--dbuser'', PyNone, PyStr ''--dbpassword'', PyStr ''secret'',
           PyStr ''--dbname'', PyStr [], PyStr ''--dbprotocol'', PyNone, PyStr ''--dburl'', PyNone]
        @ (if discardOutput ?app then [PyStr ''--nostore''] else [])"
    by blast
  have ca: "cfg_args c =
            [PyStr ''-v'', PyStr ''5'', PyStr ''-s'', PyStr ''/sw'', PyStr ''-d'', PyStr ''out'',
             PyStr ''-o'', PyStr ''['', PyStr ''-x'', PyStr ''in'', PyStr ''-i'', PyStr ''['',
             PyStr ''-m'', PyStr ''run.mac'',
             PyStr ''--dbuser'', PyNone, PyStr ''--dbpassword'', PyStr ''secret'',
             PyStr ''--dbname'', PyStr [], PyStr ''--dbprotocol'', PyNone,
             PyStr ''--dburl'', PyNone, PyStr ''--nostore'']"
    unfolding c(2) example_front_tokens using o by simp
  have f1: "fst (configure example_options db_job) = Inr ()" using t1 u m p1 by blast
  have f2: "fst (configure [''rat_db_user'' \<mapsto> PyStr ''me''] db_job) \<noteq> Inr ()"
    using t2 u m p2 by blast
  have ud: "useDB (application db_job)" using a u by simp
  from c(1) ca f1 f2 ud hd show ?thesis by blast
qed

text \<open>
  The LCG handler does not fail on an empty software directory: it runs with the default
  directory of the grid installation.
\<close>

theorem LCG_empty_directory_counterexample:
  "ratDirectory (application empty_dir_job) = []
   \<and> fst (LCGRTHandler_prepare example_host example_os empty_dir_job) =
       Inr \<lparr>config_class = LCGJobConfig,
            exe = FileObj ''/ganga/Lib/sillyPythonWrapper.py'',
            inputbox = [PathStr ''/ganga/Lib/ratProdRunner.py''],
            outputbox = [],
            cfg_args = [PyStr ''-s'', PyStr ''ratProdRunner.py'', PyStr ''-l'', PyStr ''lcg'',
                        PyStr ''-a'',
                        PyStr ([CHR 0x22] @ ''-g lcg -v 5 -s $VO_SNOPLUS_SNOLAB_CA_SW_DIR/snoing-install -d out -o [ -x in -i [ -m run.mac --nostore '' @ [CHR 0x22])]\<rparr>"
proof -
  have u: "useDB (example_app\<lparr>ratDirectory := []\<rparr>) \<longrightarrow>
      holds_db (app_config example_host) PyNone PyNone PyNone PyNone PyNone"
    by (simp add: example_app_def)
  have r: "ratDirectory (example_app\<lparr>ratDirectory := []\<rparr>) = []" by simp
  show ?thesis
    unfolding LCGRTHandler_prepare_closed[OF empty_dir_job_app u] empty_dir_job_app
      example_back_text example_front_text_dir r
    by (simp add: empty_dir_job_def example_job_def example_host_def)
qed


text \<open>
  Claim C7, as amended. With \<^verbatim>\<open>ratDirectory\<close> the empty string, \<^verbatim>\<open>prepare\<close> of the local and
  batch handler and of the WestGrid handler raise at once, leaving the job, its sandboxes
  and the file system untouched; \<^verbatim>\<open>prepare\<close> of the LCG handler does not raise for that
  reason: it behaves as for the directory
  \<^verbatim>\<open>$VO_SNOPLUS_SNOLAB_CA_SW_DIR/snoing-install\<close>, which it passes after \<^verbatim>\<open>-s\<close>.
\<close>

theorem empty_directory:
  assumes "ratDirectory (application jb) = []"
  shows "RTHandler_prepare h os jb = (Inl Exception, jb, os)
    \<and> WGRTHandler_prepare h os jb = (Inl Exception, jb, os)
    \<and> fst (LCGRTHandler_prepare h os jb) =
        fst (LCGRTHandler_prepare h os
              (jb\<lparr>application := (application jb)
                    \<lparr>ratDirectory := ''$VO_SNOPLUS_SNOLAB_CA_SW_DIR/snoing-install''\<rparr>\<rparr>))
    \<and> ((useDB (application jb) \<longrightarrow> holds_db (app_config h) u p n pr url) \<longrightarrow>
          (\<exists>c jb'. LCGRTHandler_prepare h os jb = (Inr c, jb', os)
             \<and> cfg_args c =
                 [PyStr ''-s'', PyStr ''ratProdRunner.py'', PyStr ''-l'', PyStr ''lcg'',
                  PyStr ''-a'',
                  PyStr ([CHR 0x22] @ ''-g lcg ''
                         @ front_text (application jb)
                             ''$VO_SNOPLUS_SNOLAB_CA_SW_DIR/snoing-install''
                         @ back_text (application jb) u p n pr url @ [CHR 0x22])]))"
proof (intro conjI impI)
  show "RTHandler_prepare h os jb = (Inl Exception, jb, os)"
    using assms by (simp add: RTHandler_prepare_def)
  show "WGRTHandler_prepare h os jb = (Inl Exception, jb, os)"
    using assms by (simp add: WGRTHandler_prepare_def)
  show "fst (LCGRTHandler_prepare h os jb) =
        fst (LCGRTHandler_prepare h os
              (jb\<lparr>application := (application jb)
                    \<lparr>ratDirectory := ''$VO_SNOPLUS_SNOLAB_CA_SW_DIR/snoing-install''\<rparr>\<rparr>))"
    using assms
    by (simp add: LCGRTHandler_prepare_def Let_def run_file_def front_string_args_def
        back_string_args_def split: sum.splits)
next
  assume "useDB (application jb) \<longrightarrow> holds_db (app_config h) u p n pr url"
  from LCGRTHandler_prepare_closed[OF refl this, of os] assms
  show "\<exists>c jb'. LCGRTHandler_prepare h os jb = (Inr c, jb', os)
             \<and> cfg_args c =
                 [PyStr ''-s'', PyStr ''ratProdRunner.py'', PyStr ''-l'', PyStr ''lcg'',
                  PyStr ''-a'',
                  PyStr ([CHR 0x22] @ ''-g lcg ''
                         @ front_text (application jb)
                             ''$VO_SNOPLUS_SNOLAB_CA_SW_DIR/snoing-install''
                         @ back_text (application jb) u p n pr url @ [CHR 0x22])]"
    by simp
qed

theorem empty_directory_witness:
  "ratDirectory (application empty_dir_job) = []
   \<and> RTHandler_prepare example_host example_os empty_dir_job
       = (Inl Exception, empty_dir_job, example_os)
   \<and> WGRTHandler_prepare example_host example_os empty_dir_job
       = (Inl Exception, empty_dir_job, example_os)
   \<and> (\<exists>c jb'. LCGRTHandler_prepare example_host example_os empty_dir_job
                 = (Inr c, jb', example_os))"
proof -
  have r: "ratDirectory (application empty_dir_job) = []" by (simp add: empty_dir_job_app)
  have u: "useDB (application empty_dir_job) \<longrightarrow>
      holds_db (app_config example_host) PyNone PyNone PyNone PyNone PyNone"
    by (simp add: empty_dir_job_app example_app_def)
  from empty_directory[OF r, of example_host example_os PyNone PyNone PyNone PyNone PyNone] u r
  show ?thesis by blast
qed


text \<open>
  Claim C9. For the grid backends the argument string starts with the grid flag, before
  every other token: \<^verbatim>\<open>-g srm\<close> for the WestGrid handler, \<^verbatim>\<open>-g lcg\<close> for the LCG handler. The
  WestGrid handler adds \<^verbatim>\<open>--voproxy\<close> and the proxy path after the run file and before the
  database tokens. Both handlers pass the whole string as the last entry of the argument
  list of the wrapper script \<^verbatim>\<open>sillyPythonWrapper.py\<close>, after \<^verbatim>\<open>-s ratProdRunner.py\<close>, the
  launcher kind (\<^verbatim>\<open>-l wg\<close>, \<^verbatim>\<open>-l lcg\<close>) and \<^verbatim>\<open>-a\<close>; the LCG handler puts it between double
  quotes.
\<close>

theorem grid_handlers_wrap:
  assumes "application jb = app"
    and "useDB app \<longrightarrow> holds_db (app_config h) u p n pr url"
  shows "(ratDirectory app \<noteq> []
          \<and> (voproxy (backend jb) = Some vp
              \<or> (voproxy (backend jb) = None \<and> environ os ''X509_USER_PROXY'' = Some vp))
          \<and> path_exists os vp \<longrightarrow>
            (\<exists>c jb'. WGRTHandler_prepare h os jb = (Inr c, jb', os)
               \<and> exe c = FileObj (app_directory h @ ''/sillyPythonWrapper.py'')
               \<and> cfg_args c =
                   [PyStr ''-s'', PyStr ''ratProdRunner.py'', PyStr ''-l'', PyStr ''wg'',
                    PyStr ''-a'',
                    PyStr (''-g srm '' @ front_text app (ratDirectory app)
                           @ ''--voproxy '' @ vp @ '' ''
                           @ back_text app u p n pr url)]))
    \<and> (\<exists>c jb'. LCGRTHandler_prepare h os jb = (Inr c, jb', os)
          \<and> exe c = FileObj (app_directory h @ ''/sillyPythonWrapper.py'')
          \<and> cfg_args c =
              [PyStr ''-s'', PyStr ''ratProdRunner.py'', PyStr ''-l'', PyStr ''lcg'',
               PyStr ''-a'',
               PyStr ([CHR 0x22] @ ''-g lcg ''
                      @ front_text app
                          (if ratDirectory app = []
                           then ''$VO_SNOPLUS_SNOLAB_CA_SW_DIR/snoing-install''
                           else ratDirectory app)
                      @ back_text app u p n pr url @ [CHR 0x22])])"
proof (intro conjI impI)
  assume a: "ratDirectory app \<noteq> []
          \<and> (voproxy (backend jb) = Some vp
              \<or> (voproxy (backend jb) = None \<and> environ os ''X509_USER_PROXY'' = Some vp))
          \<and> path_exists os vp"
  then have d: "ratDirectory app \<noteq> []"
    and v: "voproxy (backend jb) = Some vp
              \<or> (voproxy (backend jb) = None \<and> environ os ''X509_USER_PROXY'' = Some vp)"
    and x: "path_exists os vp"
    by simp_all
  show "\<exists>c jb'. WGRTHandler_prepare h os jb = (Inr c, jb', os)
               \<and> exe c = FileObj (app_directory h @ ''/sillyPythonWrapper.py'')
               \<and> cfg_args c =
                   [PyStr ''-s'', PyStr ''ratProdRunner.py'', PyStr ''-l'', PyStr ''wg'',
                    PyStr ''-a'',
                    PyStr (''-g srm '' @ front_text app (ratDirectory app)
                           @ ''--voproxy '' @ vp @ '' ''
                           @ back_text app u p n pr url)]"
    unfolding WGRTHandler_prepare_closed[OF assms d v x] by simp
next
  show "\<exists>c jb'. LCGRTHandler_prepare h os jb = (Inr c, jb', os)
          \<and> exe c = FileObj (app_directory h @ ''/sillyPythonWrapper.py'')
          \<and> cfg_args c =
              [PyStr ''-s'', PyStr ''ratProdRunner.py'', PyStr ''-l'', PyStr ''lcg'',
               PyStr ''-a'',
               PyStr ([CHR 0x22] @ ''-g lcg ''
                      @ front_text app
                          (if ratDirectory app = []
                           then ''$VO_SNOPLUS_SNOLAB_CA_SW_DIR/snoing-install''
                           else ratDirectory app)
                      @ back_text app u p n pr url @ [CHR 0x22])]"
    unfolding LCGRTHandler_prepare_closed[OF assms] by simp
qed

theorem grid_handlers_wrap_witness:
  "ratDirectory example_app \<noteq> [] \<and> voproxy (backend example_job) = None
   \<and> environ example_os ''X509_USER_PROXY'' = Some ''/tmp/x509up''
   \<and> path_exists example_os ''/tmp/x509up''
   \<and> (\<exists>c jb'. WGRTHandler_prepare example_host example_os example_job = (Inr c, jb', example_os)
         \<and> cfg_args c =
             [PyStr ''-s'', PyStr ''ratProdRunner.py'', PyStr ''-l'', PyStr ''wg'', PyStr ''-a'',
              PyStr ''-g srm -v 5 -s /sw -d out -o [ -x in -i [ -m run.mac --voproxy /tmp/x509up --nostore ''])
   \<and> (\<exists>c jb'. LCGRTHandler_prepare example_host example_os example_job = (Inr c, jb', example_os)
         \<and> cfg_args c =
             [PyStr ''-s'', PyStr ''ratProdRunner.py'', PyStr ''-l'', PyStr ''lcg'', PyStr ''-a'',
              PyStr ([CHR 0x22] @ ''-g lcg -v 5 -s /sw -d out -o [ -x in -i [ -m run.mac --nostore ''
                     @ [CHR 0x22])])"
proof -
  have d: "ratDirectory example_app \<noteq> []" and nu: "\<not> useDB example_app"
    and dv: "ratDirectory example_app = ''/sw''"
    by (simp_all add: example_app_def)
  have u: "useDB example_app \<longrightarrow>
      holds_db (app_config example_host) PyNone PyNone PyNone PyNone PyNone"
    using nu by simp
  have v: "voproxy (backend example_job) = None"
    and en: "environ example_os ''X509_USER_PROXY'' = Some ''/tmp/x509up''"
    and x: "path_exists example_os ''/tmp/x509up''"
    by (simp_all add: example_job_def example_os_def path_exists_def)
  have bt: "back_text example_app PyNone PyNone PyNone PyNone PyNone = ''--nostore ''"
    by (simp add: back_text_def example_app_def)
  note t = grid_handlers_wrap[OF example_job_parts(1) u,
      where os = example_os and vp = "''/tmp/x509up''"]
  from t d v en x obtain c jb' where
    w: "WGRTHandler_prepare example_host example_os example_job = (Inr c, jb', example_os)"
    "cfg_args c =
        [PyStr ''-s'', PyStr ''ratProdRunner.py'', PyStr ''-l'', PyStr ''wg'', PyStr ''-a'',
         PyStr (''-g srm '' @ front_text example_app (ratDirectory example_app)
                @ ''--voproxy '' @ ''/tmp/x509up'' @ '' ''
                @ back_text example_app PyNone PyNone PyNone PyNone PyNone)]"
    by blast
  from t obtain c2 jb2 where
    l: "LCGRTHandler_prepare example_host example_os example_job = (Inr c2, jb2, example_os)"
    "cfg_args c2 =
        [PyStr ''-s'', PyStr ''ratProdRunner.py'', PyStr ''-l'', PyStr ''lcg'', PyStr ''-a'',
         PyStr ([CHR 0x22] @ ''-g lcg ''
                @ front_text example_app
                    (if ratDirectory example_app = []
                     then ''$VO_SNOPLUS_SNOLAB_CA_SW_DIR/snoing-install''
                     else ratDirectory example_app)
                @ back_text example_app PyNone PyNone PyNone PyNone PyNone @ [CHR 0x22])]"
    by blast
  have w2: "cfg_args c =
             [PyStr ''-s'', PyStr ''ratProdRunner.py'', PyStr ''-l'', PyStr ''wg'', PyStr ''-a'',
              PyStr ''-g srm -v 5 -s /sw -d out -o [ -x in -i [ -m run.mac --voproxy /tmp/x509up --nostore '']"
    unfolding w(2) bt example_front_text dv by simp
  have l2: "cfg_args c2 =
             [PyStr ''-s'', PyStr ''ratProdRunner.py'', PyStr ''-l'', PyStr ''lcg'', PyStr ''-a'',
              PyStr ([CHR 0x22] @ ''-g lcg -v 5 -s /sw -d out -o [ -x in -i [ -m run.mac --nostore ''
                     @ [CHR 0x22])]"
    unfolding l(2) bt example_front_text dv by simp
  from d v en x w(1) w2 l(1) l2 show ?thesis by blast
qed

end
